theory Spec2Isabelle
  imports Main "HOL-Library.Sublist" "HOL-Library.AList"
begin

section \<open>Pulp manager: tasks, sync health, repo selection and the workflow controllers\<close>

text \<open>
  A shallow embedding of the parts of the pulp manager that decide how a task's state and
  type are stored (\<^verbatim>\<open>models/task.py\<close>, \<^verbatim>\<open>services/task_service.py\<close>), how repos are
  selected (\<^verbatim>\<open>services/pulp_helpers.py\<close>), how the sync controller advances a child task,
  bounds its in-flight set and computes health (\<^verbatim>\<open>services/repo_syncher.py\<close>), how
  the snapshot and removal controllers fail (\<^verbatim>\<open>services/snapshotter.py\<close>,
  \<^verbatim>\<open>services/repo_remover.py\<close>) and how content removal decides on a publication
  (\<^verbatim>\<open>tasks/remove_content_task.py\<close>).

  Python exceptions are values of the type \<open>error\<close>; a function that can raise returns
  \<open>error + 'a\<close>. \<^verbatim>\<open>datetime.utcnow()\<close> is a parameter \<open>now\<close>. Calls to the backend are
  results handed in by the caller, so every outcome of a call is an input of the model.
\<close>

subsection \<open>Exceptions and Python values\<close>

datatype error =
    ValueError string
  | TypeError string
  | KeyError string
  | IndexError
  | ReError
  | PulpManagerValueError string
  | PulpManagerSnapshotError string
  | PulpManagerEntityNotFoundError string
  | PulpManagerTaskNotFoundError string
  | PulpManagerPulpTaskError string
  | BackendError string
  | SQLAlchemyError string

text \<open>The values a property setter of \<^verbatim>\<open>Task\<close> can be handed: an int, a str, or anything else.\<close>

datatype py_value = PyInt int | PyStr string | PyNone

subsection \<open>\<^verbatim>\<open>str.lower\<close> on ASCII\<close>

definition lower_char :: "char \<Rightarrow> char" where
  "lower_char c =
     (let n = (of_char c :: nat) in if 65 \<le> n \<and> n \<le> 90 then char_of (n + 32) else c)"

definition lower :: "string \<Rightarrow> string" where
  "lower s = map lower_char s"

subsection \<open>Python \<^verbatim>\<open>Enum\<close> classes\<close>

text \<open>
  An \<^verbatim>\<open>Enum\<close> class is the list of its \<^verbatim>\<open>name = value\<close> lines in the order of the class
  body. \<^verbatim>\<open>E[name].value\<close> looks the name up among all lines (a later line that repeats a
  value is an alias and still has its own name); \<^verbatim>\<open>E(value).name\<close> is the name of the first
  line with that value; \<^verbatim>\<open>value in E._value2member_map_\<close> asks whether some line has it.
\<close>

type_synonym py_enum = "(string \<times> int) list"

definition enum_value :: "py_enum \<Rightarrow> string \<Rightarrow> int option" where
  "enum_value members nm = map_of members nm"

definition enum_name :: "py_enum \<Rightarrow> int \<Rightarrow> string option" where
  "enum_name members v =
     (case filter (\<lambda>(n, x). x = v) members of [] \<Rightarrow> None | (n, x) # rest \<Rightarrow> Some n)"

definition value2member :: "py_enum \<Rightarrow> int \<Rightarrow> bool" where
  "value2member members v = (v \<in> set (map snd members))"

definition TaskType :: py_enum where
  "TaskType =
     [(''repo_sync'', 1), (''repo_group_sync'', 2), (''repo_snapshot'', 3),
      (''repo_creation_from_git'', 4), (''repo_removal'', 5), (''remove_repo_content'', 5)]"

definition TaskState :: py_enum where
  "TaskState =
     [(''queued'', 1), (''running'', 2), (''completed'', 3), (''failed'', 4),
      (''canceled'', 5), (''failed_to_start'', 6), (''skipped'', 7)]"

subsection \<open>The \<^verbatim>\<open>Task\<close> model\<close>

record task =
  task_id :: nat
  name :: string
  parent_task_id :: "nat option"
  task_type_id :: "int option"
  state_id :: "int option"
  date_started :: "nat option"
  date_finished :: "nat option"
  date_last_updated :: "nat option"
  worker_name :: "string option"
  worker_job_id :: "string option"
  task_args :: "(string \<times> string) list"
  error_msg :: "string option"
  error_detail :: "error option"

text \<open>\<^verbatim>\<open>Task.task_type\<close>: the getter and the setter.\<close>

definition task_type :: "task \<Rightarrow> error + string option" where
  "task_type t =
     (case task_type_id t of
        None \<Rightarrow> Inr None
      | Some v \<Rightarrow>
          (case enum_name TaskType v of
             None \<Rightarrow> Inl (ValueError ''not a valid TaskType'')
           | Some n \<Rightarrow> Inr (Some n)))"

definition set_task_type :: "py_value \<Rightarrow> task \<Rightarrow> error + task" where
  "set_task_type v t =
     (case v of
        PyInt i \<Rightarrow>
          if value2member TaskType i then Inr (t\<lparr>task_type_id := Some i\<rparr>)
          else Inl (ValueError ''Invalid task type ID'')
      | PyStr s \<Rightarrow>
          (case enum_value TaskType (lower s) of
             Some i \<Rightarrow> Inr (t\<lparr>task_type_id := Some i\<rparr>)
           | None \<Rightarrow> Inl (ValueError ''Invalid task type specified''))
      | PyNone \<Rightarrow> Inl (TypeError ''Expected string or integer for task type''))"

text \<open>\<^verbatim>\<open>Task.state\<close>: the getter and the setter.\<close>

definition state :: "task \<Rightarrow> error + string option" where
  "state t =
     (case state_id t of
        None \<Rightarrow> Inr None
      | Some v \<Rightarrow>
          (case enum_name TaskState v of
             None \<Rightarrow> Inl (ValueError ''not a valid TaskState'')
           | Some n \<Rightarrow> Inr (Some n)))"

definition set_state :: "py_value \<Rightarrow> task \<Rightarrow> error + task" where
  "set_state v t =
     (case v of
        PyInt i \<Rightarrow>
          if value2member TaskState i then Inr (t\<lparr>state_id := Some i\<rparr>)
          else Inl (ValueError ''Invalid task state ID'')
      | PyStr s \<Rightarrow>
          (case enum_value TaskState (lower s) of
             Some i \<Rightarrow> Inr (t\<lparr>state_id := Some i\<rparr>)
           | None \<Rightarrow> Inl (ValueError ''Invalid task state specified''))
      | PyNone \<Rightarrow> Inl (TypeError ''Expected string or integer for task state''))"

text \<open>The members of \<^verbatim>\<open>TaskState\<close>, with \<^verbatim>\<open>.name\<close> and \<^verbatim>\<open>.value\<close>.\<close>

datatype TaskState_member =
  Queued | Running | Completed | Failed | Canceled | Failed_to_start | Skipped

fun member_name :: "TaskState_member \<Rightarrow> string" where
  "member_name Queued = ''queued''"
| "member_name Running = ''running''"
| "member_name Completed = ''completed''"
| "member_name Failed = ''failed''"
| "member_name Canceled = ''canceled''"
| "member_name Failed_to_start = ''failed_to_start''"
| "member_name Skipped = ''skipped''"

fun member_value :: "TaskState_member \<Rightarrow> int" where
  "member_value Queued = 1"
| "member_value Running = 2"
| "member_value Completed = 3"
| "member_value Failed = 4"
| "member_value Canceled = 5"
| "member_value Failed_to_start = 6"
| "member_value Skipped = 7"

subsection \<open>The entity store's \<^verbatim>\<open>update\<close>\<close>

text \<open>
  A value of the \<^verbatim>\<open>task_args\<close> dict a caller passes: the JSON text \<^verbatim>\<open>json.dumps\<close> writes for
  it, or a value \<^verbatim>\<open>json.dumps\<close> raises \<^verbatim>\<open>TypeError\<close> on (a datetime, a set, an object).
\<close>

datatype arg_value = Json string | Not_serialisable

fun json_text :: "arg_value \<Rightarrow> string" where
  "json_text (Json s) = s"
| "json_text Not_serialisable = []"

definition serialisable :: "(string \<times> arg_value) list \<Rightarrow> bool" where
  "serialisable args = list_all (\<lambda>(k, v). v \<noteq> Not_serialisable) args"

text \<open>
  The keyword arguments the callers pass to \<^verbatim>\<open>update\<close> for a task. The \<^verbatim>\<open>error\<close> of a
  task is a dict with a message and, where the caller passes one, a detail holding the
  traceback of an exception; the detail is kept as that exception.
\<close>

datatype field =
    State py_value
  | State_id int
  | Date_started nat
  | Date_finished nat
  | Date_last_updated nat
  | Worker_name "string option"
  | Worker_job_id "string option"
  | Task_args "(string \<times> arg_value) list"
  | Error string "error option"

fun set_field :: "field \<Rightarrow> task \<Rightarrow> error + task" where
  "set_field (State v) t = set_state v t"
| "set_field (State_id i) t = Inr (t\<lparr>state_id := Some i\<rparr>)"
| "set_field (Date_started d) t = Inr (t\<lparr>date_started := Some d\<rparr>)"
| "set_field (Date_finished d) t = Inr (t\<lparr>date_finished := Some d\<rparr>)"
| "set_field (Date_last_updated d) t = Inr (t\<lparr>date_last_updated := Some d\<rparr>)"
| "set_field (Worker_name w) t = Inr (t\<lparr>worker_name := w\<rparr>)"
| "set_field (Worker_job_id j) t = Inr (t\<lparr>worker_job_id := j\<rparr>)"
| "set_field (Task_args a) t =
     (if serialisable a then Inr (t\<lparr>task_args := map (\<lambda>(k, v). (k, json_text v)) a\<rparr>)
      else Inl (TypeError ''Object is not JSON serializable''))"
| "set_field (Error m detail) t = Inr (t\<lparr>error_msg := Some m, error_detail := detail\<rparr>)"

text \<open>
  Modelled from the spec: \<^verbatim>\<open>TableRepository.update\<close> (\<^verbatim>\<open>repositories/table_repository.py\<close>)
  is not among the source files. The entity store's \<^verbatim>\<open>update\<close> (spec 4.1) assigns each
  keyword argument to the attribute of that name, as the repository tests and every caller
  use it; assigning \<^verbatim>\<open>state\<close> or \<^verbatim>\<open>task_args\<close> goes through the property setter, which
  can raise.
\<close>

fun crud_update :: "task \<Rightarrow> field list \<Rightarrow> error + task" where
  "crud_update t [] = Inr t"
| "crud_update t (f # fs) =
     (case set_field f t of Inl e \<Rightarrow> Inl e | Inr t' \<Rightarrow> crud_update t' fs)"

subsection \<open>\<^verbatim>\<open>TaskService.update_task\<close>\<close>

text \<open>
  \<^verbatim>\<open>TaskUpdateInfo\<close> is a \<^verbatim>\<open>TypedDict\<close> with \<^verbatim>\<open>total=False\<close>: every key may be absent
  (\<open>None\<close> here). A present \<^verbatim>\<open>worker_name\<close> or \<^verbatim>\<open>worker_job_id\<close> may itself be \<^verbatim>\<open>None\<close>.
\<close>

record TaskUpdateInfo =
  new_state :: "TaskState_member option"
  upd_worker_name :: "string option option"
  upd_worker_job_id :: "string option option"
  upd_task_args :: "(string \<times> arg_value) list option"

type_synonym task_table = "nat \<Rightarrow> task option"

text \<open>
  \<^verbatim>\<open>{**old, **new}\<close>: the keys of \<open>old\<close> in their order, with the value \<open>new\<close> gives
  them where it has the key, then the other keys of \<open>new\<close> in their order.
\<close>

definition dict_merge :: "(string \<times> 'v) list \<Rightarrow> (string \<times> 'v) list \<Rightarrow> (string \<times> 'v) list" where
  "dict_merge old new = fold (\<lambda>(k, v). AList.update k v) new old"

text \<open>
  The result is the table after the call and what the call returned or raised. On an
  exception the session is rolled back, so the table is the one before the call.
  \<open>commit_error\<close> is the \<^verbatim>\<open>SQLAlchemyError\<close> of the commit, if it fails.
\<close>

definition update_task ::
  "task_table \<Rightarrow> error option \<Rightarrow> nat \<Rightarrow> TaskUpdateInfo
   \<Rightarrow> task_table \<times> (error + task option)" where
  "update_task db commit_error tid task_updates =
     (case db tid of
        None \<Rightarrow> (db, Inr None)
      | Some t \<Rightarrow>
          (case new_state task_updates of
             None \<Rightarrow> (db, Inl (KeyError ''new_state''))
           | Some s \<Rightarrow>
               (case crud_update t
                  [State (PyInt (member_value s)),
                   Worker_name (case upd_worker_name task_updates of
                                  None \<Rightarrow> worker_name t | Some w \<Rightarrow> w),
                   Worker_job_id (case upd_worker_job_id task_updates of
                                    None \<Rightarrow> worker_job_id t | Some j \<Rightarrow> j),
                   Task_args
                     (dict_merge (map (\<lambda>(k, v). (k, Json v)) (task_args t))
                        (case upd_task_args task_updates of None \<Rightarrow> [] | Some a \<Rightarrow> a))] of
                  Inl e \<Rightarrow> (db, Inl e)
                | Inr t' \<Rightarrow>
                    (case commit_error of
                       Some e \<Rightarrow> (db, Inl e)
                     | None \<Rightarrow> (db(tid \<mapsto> t'), Inr (Some t'))))))"

text \<open>The update is carried out: it names a state, its arguments serialise, the commit succeeds.\<close>

definition carried_out :: "error option \<Rightarrow> TaskUpdateInfo \<Rightarrow> bool" where
  "carried_out commit_error task_updates =
     (new_state task_updates \<noteq> None
      \<and> (case upd_task_args task_updates of None \<Rightarrow> True | Some a \<Rightarrow> serialisable a)
      \<and> commit_error = None)"

text \<open>
  The transition relation of invariant I1, in the spec's words: queued goes to running,
  canceled, failed_to_start or skipped; running goes to completed, failed or canceled;
  nothing leaves a terminal state.
\<close>

fun legal_transition :: "TaskState_member \<Rightarrow> TaskState_member \<Rightarrow> bool" where
  "legal_transition Queued s = (s \<in> {Running, Canceled, Failed_to_start, Skipped})"
| "legal_transition Running s = (s \<in> {Completed, Failed, Canceled})"
| "legal_transition _ s = False"

text \<open>A finished task, as a sync run leaves it.\<close>

definition completed_task :: task where
  "completed_task =
     \<lparr>task_id = 1, name = ''p1 repo sync ext-foo'', parent_task_id = None,
      task_type_id = Some 1, state_id = Some 3, date_started = Some 10,
      date_finished = Some 20, date_last_updated = None, worker_name = Some ''worker1'',
      worker_job_id = Some ''job1'', task_args = [], error_msg = None,
      error_detail = None\<rparr>"

definition one_task_table :: task_table where
  "one_task_table = Map.empty(1 \<mapsto> completed_task)"

definition to_running :: TaskUpdateInfo where
  "to_running =
     \<lparr>new_state = Some Running, upd_worker_name = None, upd_worker_job_id = None,
      upd_task_args = Some [(''note'', Json ''1'')]\<rparr>"

subsection \<open>Repos of a pulp server\<close>

definition RepoHealthStatus :: py_enum where
  "RepoHealthStatus = [(''green'', 1), (''amber'', 2), (''red'', 3)]"

text \<open>
  A \<^verbatim>\<open>PulpServerRepo\<close> row together with the name and type of its \<^verbatim>\<open>Repo\<close>
  (\<^verbatim>\<open>repo.repo.name\<close>, \<^verbatim>\<open>repo.repo.repo_type\<close>).
\<close>

record pulp_server_repo =
  repo_id :: nat
  repo_name :: string
  repo_type :: string
  repo_href :: string
  remote_href :: "string option"
  remote_feed :: "string option"
  distribution_href :: "string option"
  repo_sync_health_id :: "int option"
  repo_sync_health_date :: "nat option"

definition repo_sync_health :: "pulp_server_repo \<Rightarrow> error + string option" where
  "repo_sync_health r =
     (case repo_sync_health_id r of
        None \<Rightarrow> Inr None
      | Some v \<Rightarrow>
          (case enum_name RepoHealthStatus v of
             None \<Rightarrow> Inl (ValueError ''not a valid RepoHealthStatus'')
           | Some n \<Rightarrow> Inr (Some n)))"

definition set_repo_sync_health :: "string \<Rightarrow> pulp_server_repo \<Rightarrow> error + pulp_server_repo" where
  "set_repo_sync_health v r =
     (case enum_value RepoHealthStatus (lower v) of
        None \<Rightarrow> Inl (KeyError (lower v))
      | Some i \<Rightarrow> Inr (r\<lparr>repo_sync_health_id := Some i\<rparr>))"

record pulp_server =
  server_name :: string
  repos :: "pulp_server_repo list"
  repo_sync_health_rollup_id :: "int option"
  repo_sync_health_rollup_date :: "nat option"
  snapshot_supported :: "bool option"
  max_concurrent_snapshots :: "int option"

definition repo_sync_health_rollup :: "pulp_server \<Rightarrow> error + string option" where
  "repo_sync_health_rollup p =
     (case repo_sync_health_rollup_id p of
        None \<Rightarrow> Inr None
      | Some v \<Rightarrow>
          (case enum_name RepoHealthStatus v of
             None \<Rightarrow> Inl (ValueError ''not a valid RepoHealthStatus'')
           | Some n \<Rightarrow> Inr (Some n)))"

definition set_repo_sync_health_rollup :: "string \<Rightarrow> pulp_server \<Rightarrow> error + pulp_server" where
  "set_repo_sync_health_rollup v p =
     (case enum_value RepoHealthStatus (lower v) of
        None \<Rightarrow> Inl (KeyError (lower v))
      | Some i \<Rightarrow> Inr (p\<lparr>repo_sync_health_rollup_id := Some i\<rparr>))"

subsection \<open>Selecting repos by name: \<^verbatim>\<open>get_pulp_server_repos\<close>\<close>

text \<open>
  Python's \<^verbatim>\<open>re\<close> module is a parameter: \<open>re_search pattern string\<close> is whether
  \<^verbatim>\<open>re.search(pattern, string)\<close> finds a match, or the \<^verbatim>\<open>re.error\<close> it raises for a pattern
  that does not compile.
\<close>

type_synonym regex_engine = "string \<Rightarrow> string \<Rightarrow> error + bool"

text \<open>
  \<^verbatim>\<open>regex and re.search(regex, repo_name)\<close>: a pattern that is \<^verbatim>\<open>None\<close> or the empty string
  is falsy, and then the search is not made.
\<close>

definition and_search :: "regex_engine \<Rightarrow> string option \<Rightarrow> string \<Rightarrow> error + bool" where
  "and_search re_search regex nm =
     (case regex of
        None \<Rightarrow> Inr False
      | Some pat \<Rightarrow> if pat = [] then Inr False else re_search pat nm)"

text \<open>\<^verbatim>\<open>regex and not re.search(regex, repo_name)\<close>.\<close>

definition and_not_search :: "regex_engine \<Rightarrow> string option \<Rightarrow> string \<Rightarrow> error + bool" where
  "and_not_search re_search regex nm =
     (case regex of
        None \<Rightarrow> Inr False
      | Some pat \<Rightarrow>
          if pat = [] then Inr False
          else (case re_search pat nm of Inl e \<Rightarrow> Inl e | Inr b \<Rightarrow> Inr (\<not> b)))"

fun get_pulp_server_repos ::
  "regex_engine \<Rightarrow> pulp_server_repo list \<Rightarrow> string option \<Rightarrow> string option \<Rightarrow> bool
   \<Rightarrow> error + pulp_server_repo list" where
  "get_pulp_server_repos re_search [] regex_include regex_exclude exclude_no_remote = Inr []"
| "get_pulp_server_repos re_search (repo # rest) regex_include regex_exclude exclude_no_remote =
     (if exclude_no_remote \<and> remote_feed repo = None
      then get_pulp_server_repos re_search rest regex_include regex_exclude exclude_no_remote
      else
        (case and_search re_search regex_exclude (repo_name repo) of
           Inl e \<Rightarrow> Inl e
         | Inr excluded \<Rightarrow>
             if excluded
             then get_pulp_server_repos re_search rest regex_include regex_exclude
                    exclude_no_remote
             else
               (case and_not_search re_search regex_include (repo_name repo) of
                  Inl e \<Rightarrow> Inl e
                | Inr not_included \<Rightarrow>
                    if not_included
                    then get_pulp_server_repos re_search rest regex_include regex_exclude
                           exclude_no_remote
                    else
                      (case get_pulp_server_repos re_search rest regex_include regex_exclude
                              exclude_no_remote of
                         Inl e \<Rightarrow> Inl e
                       | Inr matching_repos \<Rightarrow> Inr (repo # matching_repos)))))"


text \<open>
  \<^verbatim>\<open>RepoRemover._get_repos_for_removal\<close>: the helper with \<^verbatim>\<open>exclude_no_remote=False\<close>; an
  empty selection is an error.
\<close>

definition get_repos_for_removal ::
  "regex_engine \<Rightarrow> pulp_server \<Rightarrow> string option \<Rightarrow> string option
   \<Rightarrow> error + pulp_server_repo list" where
  "get_repos_for_removal re_search p regex_include regex_exclude =
     (case get_pulp_server_repos re_search (repos p) regex_include regex_exclude False of
        Inl e \<Rightarrow> Inl e
      | Inr matching_repos \<Rightarrow>
          if length matching_repos = 0
          then Inl (PulpManagerValueError ''No repositories found matching the regex pattern'')
          else Inr matching_repos)"





text \<open>
  An engine for patterns without metacharacters: \<^verbatim>\<open>re.search\<close> with such a pattern finds
  a match exactly when the pattern occurs in the string.
\<close>

definition literal_search :: regex_engine where
  "literal_search pat s = Inr (sublist pat s)"

definition example_repo :: "nat \<Rightarrow> string \<Rightarrow> string option \<Rightarrow> pulp_server_repo" where
  "example_repo i nm feed =
     \<lparr>repo_id = i, repo_name = nm, repo_type = ''rpm'',
      repo_href = ''/pulp/api/v3/repositories/rpm/rpm/1/'', remote_href = None,
      remote_feed = feed, distribution_href = None, repo_sync_health_id = None,
      repo_sync_health_date = None\<rparr>"

definition example_server :: pulp_server where
  "example_server =
     \<lparr>server_name = ''p1'',
      repos = [example_repo 1 ''ext-foo'' (Some ''https://upstream/foo''),
               example_repo 2 ''ext-tmp'' (Some ''https://upstream/tmp''),
               example_repo 3 ''ext-bar'' None],
      repo_sync_health_rollup_id = None, repo_sync_health_rollup_date = None,
      snapshot_supported = Some True, max_concurrent_snapshots = Some 2\<rparr>"

subsection \<open>Repo health: \<^verbatim>\<open>RepoSyncher._calculate_repo_health\<close>\<close>

text \<open>
  The loop over \<^verbatim>\<open>last_syncs\<close> that counts \<^verbatim>\<open>num_success\<close> and \<^verbatim>\<open>num_fail\<close>: a task
  whose state is not \<^verbatim>\<open>completed\<close> counts as a failure.
\<close>

fun count_syncs :: "task list \<Rightarrow> nat \<Rightarrow> nat \<Rightarrow> error + (nat \<times> nat)" where
  "count_syncs [] num_success num_fail = Inr (num_success, num_fail)"
| "count_syncs (sync # rest) num_success num_fail =
     (case state sync of
        Inl e \<Rightarrow> Inl e
      | Inr st \<Rightarrow>
          if st \<noteq> Some ''completed'' then count_syncs rest num_success (num_fail + 1)
          else count_syncs rest (num_success + 1) num_fail)"

text \<open>The health name chosen for one repo; \<^verbatim>\<open>last_syncs[0]\<close> raises on an empty page.\<close>

definition health_of_last_syncs :: "task list \<Rightarrow> error + string" where
  "health_of_last_syncs last_syncs =
     (case count_syncs last_syncs 0 0 of
        Inl e \<Rightarrow> Inl e
      | Inr (num_success, num_fail) \<Rightarrow>
          (case last_syncs of
             [] \<Rightarrow> Inl IndexError
           | first # others \<Rightarrow>
               (case state first of
                  Inl e \<Rightarrow> Inl e
                | Inr st \<Rightarrow>
                    if st = Some ''completed'' then Inr ''green''
                    else if num_fail \<le> 3 \<and> num_success > 0 then Inr ''amber''
                    else Inr ''red'')))"

text \<open>
  Modelled from the spec: \<^verbatim>\<open>filter_paged\<close> of the entity store
  (\<^verbatim>\<open>repositories/table_repository.py\<close>) is not among the source files. Called with
  \<^verbatim>\<open>page=1, page_size=5, sort_by="date_created", order_by="desc"\<close> it returns the first five
  of the repo's task links, most recent first (spec 4.1, I4). \<open>linked_tasks i\<close> is the list
  of the tasks linked to the repo with id \<open>i\<close>, most recent first.
\<close>

definition filter_paged_last_five :: "(nat \<Rightarrow> task list) \<Rightarrow> nat \<Rightarrow> task list" where
  "filter_paged_last_five linked_tasks i = take 5 (linked_tasks i)"

text \<open>
  The loop over the repos. Each repo's update is committed before the next repo is looked
  at, so on an exception the repos already done keep their new health; the result is the
  rows after the call and the exception, if one was raised.
\<close>

fun calculate_repo_health ::
  "(nat \<Rightarrow> task list) \<Rightarrow> nat \<Rightarrow> pulp_server_repo list
   \<Rightarrow> pulp_server_repo list \<times> error option" where
  "calculate_repo_health linked_tasks now [] = ([], None)"
| "calculate_repo_health linked_tasks now (repo # rest) =
     (case health_of_last_syncs (filter_paged_last_five linked_tasks (repo_id repo)) of
        Inl e \<Rightarrow> (repo # rest, Some e)
      | Inr health \<Rightarrow>
          (case set_repo_sync_health health repo of
             Inl e \<Rightarrow> (repo # rest, Some e)
           | Inr repo' \<Rightarrow>
               (case calculate_repo_health linked_tasks now rest of
                  (rest', err) \<Rightarrow> (repo'\<lparr>repo_sync_health_date := Some now\<rparr> # rest', err))))"

text \<open>
  The classification of invariant I4, in the spec's words, on the states of the last five
  linked tasks, most recent first: a task has failed when its state is \<^verbatim>\<open>failed\<close> and has
  succeeded when its state is \<^verbatim>\<open>completed\<close>.
\<close>

definition classify :: "string option list \<Rightarrow> string" where
  "classify states =
     (let failed = length (filter (\<lambda>st. st = Some ''failed'') states);
          succeeded = length (filter (\<lambda>st. st = Some ''completed'') states)
      in if take 1 states = [Some ''completed''] then ''green''
         else if 1 \<le> failed \<and> failed \<le> 3 \<and> 1 \<le> succeeded then ''amber''
         else ''red'')"

text \<open>
  The same classification with every task that is not completed (failed, failed_to_start,
  canceled, skipped, running or queued) counted in place of the failed ones.
\<close>

definition classify_not_completed :: "string option list \<Rightarrow> string" where
  "classify_not_completed states =
     (let failed = length (filter (\<lambda>st. st \<noteq> Some ''completed'') states);
          succeeded = length (filter (\<lambda>st. st = Some ''completed'') states)
      in if take 1 states = [Some ''completed''] then ''green''
         else if 1 \<le> failed \<and> failed \<le> 3 \<and> 1 \<le> succeeded then ''amber''
         else ''red'')"

definition state_name :: "task \<Rightarrow> string option" where
  "state_name t = (case state t of Inl e \<Rightarrow> None | Inr st \<Rightarrow> st)"

definition states_readable :: "task list \<Rightarrow> bool" where
  "states_readable ts = list_all (\<lambda>t. \<not> isl (state t)) ts"

definition task_in_state :: "nat \<Rightarrow> int \<Rightarrow> task" where
  "task_in_state i st =
     \<lparr>task_id = i, name = ''p1 repo sync ext-foo'', parent_task_id = Some 100,
      task_type_id = Some 1, state_id = Some st, date_started = None, date_finished = None,
      date_last_updated = None, worker_name = None, worker_job_id = None, task_args = [],
      error_msg = None,
      error_detail = None\<rparr>"

text \<open>The links of a repo whose latest sync was canceled and whose sync before completed.\<close>

definition canceled_links :: "nat \<Rightarrow> task list" where
  "canceled_links i = [task_in_state 12 5, task_in_state 7 3]"

text \<open>Two repos: the first failed to start now and completed before; the second completed.\<close>

definition example_links :: "nat \<Rightarrow> task list" where
  "example_links i =
     (if i = 1 then [task_in_state 12 6, task_in_state 7 3, task_in_state 3 3]
      else [task_in_state 13 3, task_in_state 8 4])"

subsection \<open>Server rollup: \<^verbatim>\<open>RepoSyncher._calculate_pulp_server_repo_health_rollup\<close>\<close>

fun count_health ::
  "pulp_server_repo list \<Rightarrow> nat \<Rightarrow> nat \<Rightarrow> nat \<Rightarrow> error + (nat \<times> nat \<times> nat)" where
  "count_health [] green amber red = Inr (green, amber, red)"
| "count_health (repo # rest) green amber red =
     (case repo_sync_health repo of
        Inl e \<Rightarrow> Inl e
      | Inr health \<Rightarrow>
          if health = Some ''green'' then count_health rest (green + 1) amber red
          else if health = Some ''amber'' then count_health rest green (amber + 1) red
          else count_health rest green amber (red + 1))"

definition calculate_pulp_server_repo_health_rollup ::
  "nat \<Rightarrow> pulp_server \<Rightarrow> error + pulp_server" where
  "calculate_pulp_server_repo_health_rollup now p =
     (case count_health (repos p) 0 0 0 of
        Inl e \<Rightarrow> Inl e
      | Inr (green, amber, red) \<Rightarrow>
          (case set_repo_sync_health_rollup
                  (if red > 0 then ''red'' else if amber > 0 then ''amber'' else ''green'') p of
             Inl e \<Rightarrow> Inl e
           | Inr p' \<Rightarrow> Inr (p'\<lparr>repo_sync_health_rollup_date := Some now\<rparr>)))"

text \<open>The rollup read back from the server row after the calculation.\<close>

definition rollup_after :: "nat \<Rightarrow> pulp_server \<Rightarrow> error + string option" where
  "rollup_after now p =
     (case calculate_pulp_server_repo_health_rollup now p of
        Inl e \<Rightarrow> Inl e
      | Inr p' \<Rightarrow> repo_sync_health_rollup p')"

text \<open>
  The rollup of invariant I3, in the spec's words, on the health values of the repos
  (\<open>None\<close> for a repo whose health is unset).
\<close>

definition rollup :: "string option list \<Rightarrow> string" where
  "rollup healths =
     (if Some ''red'' \<in> set healths then ''red''
      else if Some ''amber'' \<in> set healths then ''amber''
      else ''green'')"

definition health_name :: "pulp_server_repo \<Rightarrow> string option" where
  "health_name r = (case repo_sync_health r of Inl e \<Rightarrow> None | Inr h \<Rightarrow> h)"

definition healths_readable :: "pulp_server_repo list \<Rightarrow> bool" where
  "healths_readable rs = list_all (\<lambda>r. \<not> isl (repo_sync_health r)) rs"

text \<open>A server whose only repo has never had its health computed.\<close>

definition unset_health_server :: pulp_server where
  "unset_health_server =
     \<lparr>server_name = ''p1'', repos = [example_repo 3 ''snap1-ext-foo'' None],
      repo_sync_health_rollup_id = None, repo_sync_health_rollup_date = None,
      snapshot_supported = Some True, max_concurrent_snapshots = Some 2\<rparr>"

subsection \<open>Advancing a child sync task: \<^verbatim>\<open>RepoSyncher._progress_sync\<close>\<close>

definition SYNC_STAGE_NAME :: string where
  "SYNC_STAGE_NAME = ''sync repo''"

definition REMOVE_BANNED_PACKAGES_STAGE_NAME :: string where
  "REMOVE_BANNED_PACKAGES_STAGE_NAME = ''remove banned packages''"

definition PUBLISH_STAGE_NAME :: string where
  "PUBLISH_STAGE_NAME = ''publish repo''"

text \<open>
  A task of the backend, as \<^verbatim>\<open>get_task\<close> returns it. The bindings type
  \<^verbatim>\<open>created_resources\<close> as \<^verbatim>\<open>Optional[List[Optional[str]]]\<close>.
\<close>

record pulp_task =
  pulp_href :: string
  pulp_state :: string
  created_resources :: "string option list option"

text \<open>
  The message of the sync stage: \<^verbatim>\<open>len(pulp_task.created_resources)\<close> raises on \<^verbatim>\<open>None\<close>
  and \<^verbatim>\<open>', '.join\<close> raises on a list with a \<^verbatim>\<open>None\<close> in it.
\<close>

definition created_message_raises :: "pulp_task \<Rightarrow> bool" where
  "created_message_raises pulp_task =
     (case created_resources pulp_task of
        None \<Rightarrow> True
      | Some resources \<Rightarrow> length resources > 0 \<and> None \<in> set resources)"

text \<open>
  What the backend answers during one call of \<^verbatim>\<open>_progress_sync\<close>: the polled task (or
  the exception of \<^verbatim>\<open>get_task\<close>), whether \<^verbatim>\<open>_publication_exists\<close> finds a publication of
  the repo's \<^verbatim>\<open>latest_version_href\<close>, whether \<^verbatim>\<open>_start_remove_banned_packages\<close> started a
  modify task, and the exception of \<^verbatim>\<open>_start_publication\<close>, if it raises.
\<close>

record sync_answers =
  get_task_result :: "error + pulp_task"
  publication_exists_result :: "error + bool"
  start_remove_banned_packages_result :: "error + bool"
  start_publication_result :: "error option"

datatype sync_action = Start_remove_banned_packages | Start_publication

text \<open>
  \<^verbatim>\<open>_start_publication\<close> as the caller sees it: it raises when a backend call fails, after
  marking the task failed (the publish stage does not exist yet at that point).
\<close>

definition start_publication :: "sync_answers \<Rightarrow> nat \<Rightarrow> task \<Rightarrow> error option \<times> task" where
  "start_publication answers now t =
     (case start_publication_result answers of
        None \<Rightarrow> (None, t)
      | Some e \<Rightarrow>
          (case crud_update t [State (PyStr ''failed''), Date_finished now] of
             Inl e' \<Rightarrow> (Some e', t)
           | Inr t' \<Rightarrow> (Some e, t')))"

text \<open>
  The result of \<^verbatim>\<open>_progress_sync\<close>: what it returned (\<open>True\<close>: the child leaves the
  in-flight set) or raised, the task row afterwards, and the stages it started.
\<close>

type_synonym progress = "(error + bool) \<times> task \<times> sync_action list"

definition mark :: "nat \<Rightarrow> string \<Rightarrow> task \<Rightarrow> progress" where
  "mark now st t =
     (case crud_update t [State (PyStr st), Date_finished now] of
        Inl e \<Rightarrow> (Inl e, t, [])
      | Inr t' \<Rightarrow> (Inr True, t', []))"

text \<open>
  The branch for a completed sync stage. Its body is a \<^verbatim>\<open>try\<close> whose handler returns
  \<open>True\<close> and leaves the task as it is.
\<close>

definition progress_sync_stage :: "sync_answers \<Rightarrow> pulp_task \<Rightarrow> nat \<Rightarrow> task \<Rightarrow> progress" where
  "progress_sync_stage answers pulp_task now t =
     (if created_message_raises pulp_task then (Inr True, t, [])
      else case map_of (task_args t) ''repo_href'' of
        None \<Rightarrow> (Inr True, t, [])
      | Some href \<Rightarrow>
          (case publication_exists_result answers of
             Inl e \<Rightarrow> (Inr True, t, [])
           | Inr exists \<Rightarrow>
               if \<not> exists \<and> \<not> sublist ''/container/'' href
               then
                 (case start_remove_banned_packages_result answers of
                    Inl e \<Rightarrow> (Inr True, t, [Start_remove_banned_packages])
                  | Inr started_package_removal \<Rightarrow>
                      if \<not> started_package_removal
                      then
                        (case start_publication answers now t of
                           (Some e, t') \<Rightarrow>
                             (Inr True, t', [Start_remove_banned_packages, Start_publication])
                         | (None, t') \<Rightarrow>
                             (Inr False, t', [Start_remove_banned_packages, Start_publication]))
                      else (Inr False, t, [Start_remove_banned_packages]))
               else
                 (case mark now ''completed'' t of
                    (Inl e, t', acts) \<Rightarrow> (Inr True, t', acts)
                  | (Inr b, t', acts) \<Rightarrow> (Inr b, t', acts))))"

definition progress_sync ::
  "sync_answers \<Rightarrow> nat \<Rightarrow> task \<Rightarrow> string \<Rightarrow> string option \<Rightarrow> progress" where
  "progress_sync answers now t current_stage_name task_href =
     (case task_href of
        None \<Rightarrow> (Inl (KeyError ''task_href''), t, [])
      | Some href \<Rightarrow>
          (case get_task_result answers of
             Inl e \<Rightarrow> mark now ''failed'' t
           | Inr pulp_task \<Rightarrow>
               if pulp_state pulp_task \<notin> set [''running'', ''waiting'']
               then
                 if pulp_state pulp_task \<noteq> ''completed'' then mark now ''failed'' t
                 else if current_stage_name = SYNC_STAGE_NAME
                   then progress_sync_stage answers pulp_task now t
                 else if current_stage_name = REMOVE_BANNED_PACKAGES_STAGE_NAME
                   then
                     (case start_publication answers now t of
                        (Some e, t') \<Rightarrow> (Inr True, t', [Start_publication])
                      | (None, t') \<Rightarrow> (Inr False, t', [Start_publication]))
                 else
                   mark now
                     (if pulp_state pulp_task \<noteq> ''completed'' then ''failed'' else ''completed'') t
               else
                 (case crud_update t [Date_last_updated now] of
                    Inl e \<Rightarrow> (Inl e, t, [])
                  | Inr t' \<Rightarrow> (Inr False, t', []))))"

text \<open>
  The spec's condition for skipping the remaining stages: the sync created nothing and a
  publication of the latest version exists.
\<close>

definition nothing_new_and_published :: "pulp_task \<Rightarrow> bool \<Rightarrow> bool" where
  "nothing_new_and_published pulp_task exists =
     (created_resources pulp_task = Some [] \<and> exists)"

text \<open>The child is marked completed and leaves the in-flight set; no further stage starts.\<close>

definition skipped_and_completed :: "nat \<Rightarrow> task \<Rightarrow> progress \<Rightarrow> bool" where
  "skipped_and_completed now t r =
     (r = (Inr True, t\<lparr>state_id := Some 3, date_finished := Some now\<rparr>, []))"

text \<open>
  The run advances: the remove-banned-packages stage was started and the child stays in
  flight, with its row as it was; the publish stage was started as well when no package
  had to be removed.
\<close>

definition advanced :: "sync_answers \<Rightarrow> task \<Rightarrow> progress \<Rightarrow> bool" where
  "advanced answers t r =
     (r = (Inr False, t,
           if start_remove_banned_packages_result answers = Inr True
           then [Start_remove_banned_packages]
           else [Start_remove_banned_packages, Start_publication]))"

text \<open>The next stage starts without raising.\<close>

definition next_stage_starts :: "sync_answers \<Rightarrow> bool" where
  "next_stage_starts answers =
     (start_remove_banned_packages_result answers = Inr True
      \<or> (start_remove_banned_packages_result answers = Inr False
          \<and> start_publication_result answers = None))"

definition completed_sync :: "string list \<Rightarrow> pulp_task" where
  "completed_sync created =
     \<lparr>pulp_href = ''/pulp/api/v3/tasks/1/'', pulp_state = ''completed'',
      created_resources = Some (map Some created)\<rparr>"

definition sync_answers_example :: "string list \<Rightarrow> bool \<Rightarrow> sync_answers" where
  "sync_answers_example created exists =
     \<lparr>get_task_result = Inr (completed_sync created), publication_exists_result = Inr exists,
      start_remove_banned_packages_result = Inr False, start_publication_result = None\<rparr>"

definition running_sync_task :: "string \<Rightarrow> task" where
  "running_sync_task href =
     \<lparr>task_id = 7, name = ''p1 repo sync ext-foo'', parent_task_id = Some 1,
      task_type_id = Some 1, state_id = Some 2, date_started = Some 10, date_finished = None,
      date_last_updated = None, worker_name = Some ''worker1'', worker_job_id = Some ''job1'',
      task_args = [(''pulp_server_repo_id'', ''1''), (''repo_href'', href)], error_msg = None,
      error_detail = None\<rparr>"

subsection \<open>\<^verbatim>\<open>get_repo_type_from_href\<close>\<close>

definition is_lower_letter :: "char \<Rightarrow> bool" where
  "is_lower_letter c = (let n = (of_char c :: nat) in 97 \<le> n \<and> n \<le> 122)"

text \<open>
  \<^verbatim>\<open>[a-z]+/\<close> at the start of a string: the letters and what follows the slash, or
  \<open>None\<close> when the string does not start that way.
\<close>

definition letters_then_slash :: "string \<Rightarrow> (string \<times> string) option" where
  "letters_then_slash s =
     (let letters = takeWhile is_lower_letter s; rest = dropWhile is_lower_letter s
      in if letters \<noteq> [] \<and> take 1 rest = ''/'' then Some (letters, drop 1 rest) else None)"

text \<open>\<^verbatim>\<open>re.match('/pulp/api/v3/[a-z]+/([a-z]+)/', pulp_href)\<close> and its first group.\<close>

definition get_repo_type_from_href :: "string \<Rightarrow> error + string" where
  "get_repo_type_from_href href =
     (if prefix ''/pulp/api/v3/'' href
      then
        (case letters_then_slash (drop (length ''/pulp/api/v3/'') href) of
           None \<Rightarrow> Inl (PulpManagerValueError ''repo type could not be determined from pulp_href'')
         | Some (category, rest) \<Rightarrow>
             (case letters_then_slash rest of
                None \<Rightarrow>
                  Inl (PulpManagerValueError ''repo type could not be determined from pulp_href'')
              | Some (kind, rest') \<Rightarrow> Inr kind))
      else Inl (PulpManagerValueError ''repo type could not be determined from pulp_href''))"

subsection \<open>Content removal: what \<^verbatim>\<open>remove_repo_content\<close> does after the modify task\<close>

text \<open>The repository as \<^verbatim>\<open>get_repo\<close> returned it; \<open>is_deb\<close> is \<^verbatim>\<open>isinstance(pulp_repo, DebRepository)\<close>.\<close>

record pulp_repository =
  repository_href :: string
  latest_version_href :: string
  is_deb :: bool

text \<open>
  What the backend answers: the \<^verbatim>\<open>distributions\<close> field of the remote that \<^verbatim>\<open>get_remote\<close>
  returns (a DEB remote is flat when it is \<^verbatim>\<open>"/"\<close>), and the publication task that
  \<^verbatim>\<open>create_publication_from_repo_version\<close> starts; either call can raise.
\<close>

record content_answers =
  get_remote_distributions :: "error + string"
  create_publication_result :: "error + pulp_task"

text \<open>
  A publication requested from the backend. The version is \<^verbatim>\<open>None\<close> when the first created
  resource is.
\<close>

record publication_request =
  repo_version_to_publish :: "string option"
  publish_repo_type :: string
  is_flat_repo :: bool

record after_modify =
  stages_added :: "string list"
  publication_requested :: "publication_request option"

text \<open>\<^verbatim>\<open>is_flat_repo\<close>: read from the remote for a DEB repository, \<open>False\<close> for the others.\<close>

definition flat_of_remote :: "content_answers \<Rightarrow> pulp_repository \<Rightarrow> error + bool" where
  "flat_of_remote answers pulp_repo =
     (if is_deb pulp_repo
      then (case get_remote_distributions answers of
              Inl e \<Rightarrow> Inl e
            | Inr distributions \<Rightarrow> Inr (distributions = ''/''))
      else Inr False)"

text \<open>\<^verbatim>\<open>f"{version}"\<close>: \<^verbatim>\<open>None\<close> is written \<^verbatim>\<open>None\<close>.\<close>

definition format_version :: "string option \<Rightarrow> string" where
  "format_version v = (case v of None \<Rightarrow> ''None'' | Some text \<Rightarrow> text)"

text \<open>
  The lines of \<^verbatim>\<open>remove_repo_content\<close> from the check of the modify task's end state to the
  stage that records the publication task; the polling of that task follows.
  \<^verbatim>\<open>len(modify_pulp_task.created_resources)\<close> raises when the backend task carries no list.
\<close>

definition publish_after_modify ::
  "content_answers \<Rightarrow> pulp_repository \<Rightarrow> pulp_task \<Rightarrow> bool \<Rightarrow> error + after_modify" where
  "publish_after_modify answers pulp_repo modify_pulp_task force_publish =
     (if pulp_state modify_pulp_task \<noteq> ''completed''
      then Inl (PulpManagerPulpTaskError
                  (''modify task '' @ pulp_href modify_pulp_task @ '' failed''))
      else
        (case created_resources modify_pulp_task of
           None \<Rightarrow> Inl (TypeError ''object of type NoneType has no len()'')
         | Some resources \<Rightarrow>
             if length resources = 0 \<and> \<not> force_publish
             then Inr \<lparr>stages_added =
                          [''repo publication skipped as no new resources created from modify''],
                       publication_requested = None\<rparr>
             else
               (case flat_of_remote answers pulp_repo of
                  Inl e \<Rightarrow> Inl e
                | Inr flat \<Rightarrow>
                    (let version =
                           (case resources of
                              [] \<Rightarrow> Some (latest_version_href pulp_repo)
                            | first # others \<Rightarrow> first)
                     in case get_repo_type_from_href (repository_href pulp_repo) of
                          Inl e \<Rightarrow> Inl e
                        | Inr kind \<Rightarrow>
                            (case create_publication_result answers of
                               Inl e \<Rightarrow> Inl e
                             | Inr publication_pulp_task \<Rightarrow>
                                 Inr \<lparr>stages_added =
                                        [''publishing repo version '' @ format_version version],
                                      publication_requested =
                                        Some \<lparr>repo_version_to_publish = version,
                                              publish_repo_type = kind,
                                              is_flat_repo = flat\<rparr>\<rparr>)))))"





subsection \<open>Starting a child sync task: \<^verbatim>\<open>RepoSyncher._start_sync\<close>\<close>

text \<open>
  How a call of \<^verbatim>\<open>_start_sync\<close> goes: the sync starts; or an exception is raised before the
  sync stage exists; or one is raised after, and the handler marks the task
  \<^verbatim>\<open>failed_to_start\<close> before raising again. A task without \<^verbatim>\<open>repo_href\<close> in its arguments
  raises \<^verbatim>\<open>KeyError\<close> in the \<^verbatim>\<open>try\<close> and again in the handler, which builds its message
  from it.
\<close>

datatype start_outcome = Starts | Raises_before_stage error | Raises_after_stage error

definition start_sync :: "start_outcome \<Rightarrow> nat \<Rightarrow> task \<Rightarrow> error option \<times> task" where
  "start_sync outcome now t =
     (case map_of (task_args t) ''repo_href'' of
        None \<Rightarrow> (Some (KeyError ''repo_href''), t)
      | Some href \<Rightarrow>
          (case outcome of
             Starts \<Rightarrow>
               (case crud_update t [State (PyStr ''running''), Date_started now] of
                  Inl e \<Rightarrow> (Some e, t)
                | Inr t' \<Rightarrow> (None, t'))
           | Raises_before_stage e \<Rightarrow> (Some e, t)
           | Raises_after_stage e \<Rightarrow>
               (case crud_update t
                       [State (PyStr ''failed_to_start''), Date_finished now,
                        Error (''unexpected error occured starting repo sync  for repo '' @ href)
                          (Some e)] of
                  Inl e' \<Rightarrow> (Some e', t)
                | Inr t' \<Rightarrow> (Some e, t'))))"

subsection \<open>The scheduler loop: \<^verbatim>\<open>RepoSyncher._do_sync_repos\<close>\<close>

text \<open>
  Child tasks are their ids, and \<open>rows\<close> gives the row of the tasks table for an id.
  \<^verbatim>\<open>tasks_in_progress\<close> is a dict keyed by task id: the list of its keys in insertion order.
  Storing under a key that is present keeps the size, deleting a key that is absent raises
  \<^verbatim>\<open>KeyError\<close>.
\<close>

type_synonym in_progress = "nat list"

type_synonym rows = "nat \<Rightarrow> task"

definition dict_set :: "nat \<Rightarrow> in_progress \<Rightarrow> in_progress" where
  "dict_set k d = (if k \<in> set d then d else d @ [k])"

definition dict_del :: "nat \<Rightarrow> in_progress \<Rightarrow> error option \<times> in_progress" where
  "dict_del k d = (if k \<in> set d then (None, remove1 k d) else (Some (KeyError ''task id''), d))"

text \<open>
  What is seen at a point of the loop: the keys of \<^verbatim>\<open>tasks_in_progress\<close>, and the children
  whose row is in state running.
\<close>

type_synonym tick = "in_progress \<times> nat list"

definition running_children :: "rows \<Rightarrow> nat list \<Rightarrow> nat list" where
  "running_children r children = filter (\<lambda>i. state (r i) = Inr (Some ''running'')) children"

definition tick_of :: "rows \<Rightarrow> nat list \<Rightarrow> in_progress \<Rightarrow> tick" where
  "tick_of r children d = (d, running_children r children)"

text \<open>
  The inner \<^verbatim>\<open>while\<close> that takes pending tasks into \<^verbatim>\<open>tasks_in_progress\<close>, on the pending
  list read from its end (\<^verbatim>\<open>pop()\<close> takes the last element). The third component lists
  \<^verbatim>\<open>tasks_in_progress\<close> after each insertion.
\<close>

fun fill_from_end ::
  "int \<Rightarrow> nat list \<Rightarrow> in_progress \<Rightarrow> nat list \<times> in_progress \<times> in_progress list" where
  "fill_from_end max_concurrent_syncs [] d = ([], d, [])"
| "fill_from_end max_concurrent_syncs (t # rest) d =
     (if int (length d) \<noteq> max_concurrent_syncs
      then
        (case fill_from_end max_concurrent_syncs rest (dict_set t d) of
           (left, d', seen) \<Rightarrow> (left, d', dict_set t d # seen))
      else (t # rest, d, []))"

definition fill ::
  "int \<Rightarrow> nat list \<Rightarrow> in_progress \<Rightarrow> nat list \<times> in_progress \<times> in_progress list" where
  "fill max_concurrent_syncs repo_tasks_pending d =
     (case fill_from_end max_concurrent_syncs (rev repo_tasks_pending) d of
        (left, d', seen) \<Rightarrow> (rev left, d', seen))"

text \<open>
  What one pass of the \<^verbatim>\<open>for\<close> loop finds for one task: whether the refreshed task has
  stages, how \<^verbatim>\<open>_start_sync\<close> goes, whether the task has stages at the second test when it
  had none at the first, the name and the \<^verbatim>\<open>task_href\<close> of its last stage, and what the
  backend answers to \<^verbatim>\<open>_progress_sync\<close>.
\<close>

record step_answers =
  has_stages :: bool
  start_outcome :: start_outcome
  has_stages_after_start :: bool
  current_stage_name :: string
  current_task_href :: "string option"
  backend :: sync_answers

text \<open>
  The body of the \<^verbatim>\<open>for\<close> loop for the task with id \<open>i\<close>: the exception that escapes it,
  \<^verbatim>\<open>tasks_in_progress\<close> and the rows afterwards.
\<close>

definition step_task ::
  "step_answers \<Rightarrow> nat \<Rightarrow> nat \<Rightarrow> in_progress \<Rightarrow> rows \<Rightarrow> error option \<times> in_progress \<times> rows" where
  "step_task a now i d r =
     (case (if \<not> has_stages a then start_sync (start_outcome a) now (r i) else (None, r i)) of
        (start_error, t1) \<Rightarrow>
          (case (if start_error \<noteq> None then dict_del i d else (None, d)) of
             (Some e, d1) \<Rightarrow> (Some e, d1, r(i := t1))
           | (None, d1) \<Rightarrow>
               if has_stages a \<or> has_stages_after_start a
               then
                 (case progress_sync (backend a) now t1 (current_stage_name a)
                         (current_task_href a) of
                    (Inl e, t2, acts) \<Rightarrow> (Some e, d1, r(i := t2))
                  | (Inr stages_complete, t2, acts) \<Rightarrow>
                      if stages_complete
                      then (case dict_del i d1 of (err, d2) \<Rightarrow> (err, d2, r(i := t2)))
                      else
                        (case crud_update t2 [Date_last_updated now] of
                           Inl e \<Rightarrow> (Some e, d1, r(i := t2))
                         | Inr t3 \<Rightarrow> (None, d1, r(i := t3))))
               else (None, d1, r(i := t1))))"

text \<open>
  The \<^verbatim>\<open>for\<close> loop over the copy of \<^verbatim>\<open>tasks_in_progress\<close>; an exception that escapes a
  task's step ends the loop. The last component lists what is seen after each task's step.
\<close>

fun poll_tasks ::
  "(nat \<Rightarrow> step_answers) \<Rightarrow> nat \<Rightarrow> nat list \<Rightarrow> nat list \<Rightarrow> in_progress \<Rightarrow> rows
   \<Rightarrow> error option \<times> in_progress \<times> rows \<times> tick list" where
  "poll_tasks answers now children [] d r = (None, d, r, [])"
| "poll_tasks answers now children (i # rest) d r =
     (case step_task (answers i) now i d r of
        (Some e, d1, r1) \<Rightarrow> (Some e, d1, r1, [tick_of r1 children d1])
      | (None, d1, r1) \<Rightarrow>
          (case poll_tasks answers now children rest d1 r1 of
             (err, d2, r2, seen) \<Rightarrow> (err, d2, r2, tick_of r1 children d1 # seen)))"

datatype loop_end = Finished | Raised error | Still_running

text \<open>
  The outer \<^verbatim>\<open>while\<close>, for at most \<open>fuel\<close> iterations (the loop runs for as long as the
  backend keeps tasks unfinished). \<open>answers n\<close> is what iteration \<open>n\<close> finds. The second
  component lists what is seen at the start of each iteration, after each insertion into
  \<^verbatim>\<open>tasks_in_progress\<close> and after each task's step, in order.
\<close>

fun do_sync_loop ::
  "nat \<Rightarrow> (nat \<Rightarrow> nat \<Rightarrow> step_answers) \<Rightarrow> nat \<Rightarrow> nat \<Rightarrow> int \<Rightarrow> nat list \<Rightarrow> nat list
   \<Rightarrow> in_progress \<Rightarrow> rows \<Rightarrow> loop_end \<times> tick list" where
  "do_sync_loop 0 answers now n max_concurrent_syncs children repo_tasks_pending d r =
     (if length repo_tasks_pending > 0 \<or> length d > 0
      then (Still_running, [tick_of r children d])
      else (Finished, [tick_of r children d]))"
| "do_sync_loop (Suc fuel) answers now n max_concurrent_syncs children repo_tasks_pending d r =
     (if length repo_tasks_pending > 0 \<or> length d > 0
      then
        (case fill max_concurrent_syncs repo_tasks_pending d of
           (pending', d1, seen1) \<Rightarrow>
             (case poll_tasks (answers n) now children d1 d1 r of
                (Some e, d2, r2, seen2) \<Rightarrow>
                  (Raised e, tick_of r children d # map (tick_of r children) seen1 @ seen2)
              | (None, d2, r2, seen2) \<Rightarrow>
                  (case do_sync_loop fuel answers now (n + 1) max_concurrent_syncs children
                          pending' d2 r2 of
                     (end, seen3) \<Rightarrow>
                       (end,
                        tick_of r children d # map (tick_of r children) seen1 @ seen2 @ seen3))))
      else (Finished, [tick_of r children d]))"

definition do_sync_repos ::
  "nat \<Rightarrow> (nat \<Rightarrow> nat \<Rightarrow> step_answers) \<Rightarrow> nat \<Rightarrow> int \<Rightarrow> rows \<Rightarrow> nat list
   \<Rightarrow> loop_end \<times> tick list" where
  "do_sync_repos fuel answers now max_concurrent_syncs r repo_tasks =
     do_sync_loop fuel answers now 0 max_concurrent_syncs repo_tasks repo_tasks [] r"

text \<open>The row of a child task as \<^verbatim>\<open>_generate_tasks\<close> creates it: queued.\<close>

definition queued_child :: "nat \<Rightarrow> task" where
  "queued_child i =
     \<lparr>task_id = i, name = ''p1 repo sync'', parent_task_id = Some 100,
      task_type_id = Some 1, state_id = Some 1, date_started = None, date_finished = None,
      date_last_updated = None, worker_name = Some ''worker'', worker_job_id = None,
      task_args = [(''pulp_server_repo_id'', ''1''),
                   (''repo_href'', ''/pulp/api/v3/repositories/rpm/rpm/1/'')],
      error_msg = None, error_detail = None\<rparr>"

text \<open>
  A run of the children 1 and 2 with one sync at a time, on a backend whose sync tasks
  complete and whose publication lookup fails: every sync starts, \<^verbatim>\<open>_publication_exists\<close>
  raises, and a task shows its sync stage from the iteration after its start (child 1 is
  started in iteration 0, child 2 in iteration 2, once child 1 has left
  \<^verbatim>\<open>tasks_in_progress\<close>).
\<close>

definition lookup_fails :: "nat \<Rightarrow> nat \<Rightarrow> step_answers" where
  "lookup_fails n i =
     \<lparr>has_stages = (if i = 1 then 0 < n else 2 < n), start_outcome = Starts,
      has_stages_after_start = False,
      current_stage_name = SYNC_STAGE_NAME,
      current_task_href = Some ''/pulp/api/v3/tasks/1/'',
      backend =
        \<lparr>get_task_result = Inr (completed_sync []),
         publication_exists_result = Inl (BackendError ''503''),
         start_remove_banned_packages_result = Inr False,
         start_publication_result = None\<rparr>\<rparr>"

subsection \<open>The snapshot controller: \<^verbatim>\<open>Snapshotter.snapshot_repos\<close>\<close>

text \<open>
  \<^verbatim>\<open>Snapshotter._snapshot_allowed\<close>: the first repo whose name matches
  \<^verbatim>\<open>re.match(f"^{snapshot_prefix}", name)\<close> raises. \<open>re_match pattern string\<close> is whether
  \<^verbatim>\<open>re.match\<close> finds a match, or the \<^verbatim>\<open>re.error\<close> it raises.
\<close>

fun snapshot_allowed :: "regex_engine \<Rightarrow> string \<Rightarrow> pulp_server_repo list \<Rightarrow> error option" where
  "snapshot_allowed re_match snapshot_prefix [] = None"
| "snapshot_allowed re_match snapshot_prefix (repo # rest) =
     (case re_match (''^'' @ snapshot_prefix) (repo_name repo) of
        Inl e \<Rightarrow> Some e
      | Inr matched \<Rightarrow>
          if matched
          then Some (PulpManagerSnapshotError
                       (''snapshots with prefix '' @ snapshot_prefix @ '' already exist''))
          else snapshot_allowed re_match snapshot_prefix rest)"

text \<open>
  The collaborators of a run. The reconciler (\<^verbatim>\<open>services/reconciler.py\<close>, not among the
  source files) fetches the backend's remotes, repositories and distributions (spec 4.5)
  and leaves the server with the repos it found: \<open>reconcile_result\<close> is that list, or the
  exception. \<open>snapshots_result\<close> is what \<^verbatim>\<open>_do_snapshot_repos\<close> ends with: whether some
  repo failed to snapshot, or the exception that escapes it.
\<close>

record snapshot_answers =
  reconcile_result :: "error + pulp_server_repo list"
  snapshots_result :: "error + bool"

datatype backend_work = Reconcile | Snapshot_repos | Remove_repos

text \<open>
  What a controller run leaves behind: the exception that escapes it, the committed task
  table, the parent task as the session holds it (\<open>None\<close> when there is none), and the
  work done against the backend, in order.
\<close>

record run_result =
  raised :: "error option"
  committed :: task_table
  session_task :: "task option"
  backend_work_done :: "backend_work list"

definition normalize_prefix :: "string \<Rightarrow> string" where
  "normalize_prefix snapshot_prefix =
     (if suffix ''-'' snapshot_prefix then snapshot_prefix else snapshot_prefix @ ''-'')"

text \<open>
  The parent task row a run creates when it is given no task id. The host name that
  \<^verbatim>\<open>socket.gethostname()\<close> returns is written \<^verbatim>\<open>worker\<close>; no job id is set outside a job.
\<close>

definition new_snapshot_task :: "nat \<Rightarrow> nat \<Rightarrow> pulp_server \<Rightarrow> task" where
  "new_snapshot_task now new_id p =
     \<lparr>task_id = new_id, name = server_name p @ '' repo snapshot'', parent_task_id = None,
      task_type_id = Some 3, state_id = Some 2, date_started = Some now, date_finished = None,
      date_last_updated = None, worker_name = Some ''worker'', worker_job_id = None,
      task_args = [], error_msg = None, error_detail = None\<rparr>"

text \<open>
  The \<^verbatim>\<open>try\<close> block of \<^verbatim>\<open>snapshot_repos\<close>: reconcile, the reuse guard, the snapshots.
  The result is the exception raised in the block, the updates \<^verbatim>\<open>_do_snapshot_repos\<close>
  makes to the task at its end, and the work done. The message of a run with a failed
  snapshot is the f-string \<^verbatim>\<open>f"the following repos failed {','}.join(snapshots_failed)"\<close>,
  in which only \<^verbatim>\<open>{','}\<close> is evaluated.
\<close>

definition snapshot_try_block ::
  "regex_engine \<Rightarrow> snapshot_answers \<Rightarrow> nat \<Rightarrow> string \<Rightarrow> bool
   \<Rightarrow> error option \<times> field list \<times> backend_work list" where
  "snapshot_try_block re_match answers now snapshot_prefix allow_snapshot_reuse =
     (case reconcile_result answers of
        Inl e \<Rightarrow> (Some e, [], [Reconcile])
      | Inr server_repos \<Rightarrow>
          (case (if \<not> allow_snapshot_reuse
                 then snapshot_allowed re_match snapshot_prefix server_repos else None) of
             Some e \<Rightarrow> (Some e, [], [Reconcile])
           | None \<Rightarrow>
               (case snapshots_result answers of
                  Inl e \<Rightarrow> (Some e, [], [Reconcile, Snapshot_repos])
                | Inr some_failed \<Rightarrow>
                    (None,
                     [State (PyStr (if some_failed then ''failed'' else ''completed'')),
                      Date_finished now,
                      Error (if some_failed
                             then ''the following repos failed ,.join(snapshots_failed)''
                             else []) None],
                     [Reconcile, Snapshot_repos]))))"

text \<open>The \<^verbatim>\<open>except\<close> block: mark the parent task failed, commit, raise again.\<close>

definition fail_and_commit ::
  "string \<Rightarrow> nat \<Rightarrow> task_table \<Rightarrow> nat \<Rightarrow> task \<Rightarrow> error \<Rightarrow> backend_work list \<Rightarrow> run_result" where
  "fail_and_commit msg now db key t e work =
     (case crud_update t [State (PyStr ''failed''), Date_finished now, Error msg (Some e)] of
        Inl e' \<Rightarrow>
          \<lparr>raised = Some e', committed = db, session_task = Some t, backend_work_done = work\<rparr>
      | Inr t' \<Rightarrow>
          \<lparr>raised = Some e, committed = db(key \<mapsto> t'), session_task = Some t',
           backend_work_done = work\<rparr>)"

text \<open>The id of the parent task: the one given, or the id of the new row.\<close>

definition parent_key :: "nat option \<Rightarrow> nat \<Rightarrow> nat" where
  "parent_key tid new_id = (case tid of None \<Rightarrow> new_id | Some i \<Rightarrow> i)"

definition snapshot_repos ::
  "regex_engine \<Rightarrow> snapshot_answers \<Rightarrow> nat \<Rightarrow> nat \<Rightarrow> pulp_server \<Rightarrow> task_table \<Rightarrow> string
   \<Rightarrow> nat option \<Rightarrow> bool \<Rightarrow> run_result" where
  "snapshot_repos re_match answers now new_id p db snapshot_prefix tid allow_snapshot_reuse =
     (let prefix' = normalize_prefix snapshot_prefix;
          key = parent_key tid new_id;
          started =
            (case tid of
               None \<Rightarrow> Inr (new_snapshot_task now new_id p)
             | Some i \<Rightarrow>
                 (case db i of
                    None \<Rightarrow> Inl (PulpManagerValueError ''task with ID not found'')
                  | Some t \<Rightarrow>
                      crud_update t
                        [State_id 2, Date_started now, Worker_job_id None,
                         Worker_name (Some ''worker'')]))
      in case started of
           Inl e \<Rightarrow>
             \<lparr>raised = Some e, committed = db, session_task = None, backend_work_done = []\<rparr>
         | Inr t \<Rightarrow>
             (let db1 = db(key \<mapsto> t)
              in if snapshot_supported p \<noteq> Some True
                 then \<lparr>raised = Some (PulpManagerValueError
                                        (''pulp server '' @ server_name p
                                           @ '' not supported for repo snapshots'')),
                       committed = db1, session_task = Some t, backend_work_done = []\<rparr>
                 else
                   (case snapshot_try_block re_match answers now prefix' allow_snapshot_reuse of
                      (None, updates, work) \<Rightarrow>
                        (case crud_update t updates of
                           Inl e \<Rightarrow>
                             fail_and_commit ''failed to snapshot repos'' now db1 key t e work
                         | Inr t' \<Rightarrow>
                             \<lparr>raised = None, committed = db1(key \<mapsto> t'),
                              session_task = Some t', backend_work_done = work\<rparr>)
                    | (Some e, updates, work) \<Rightarrow>
                        fail_and_commit ''failed to snapshot repos'' now db1 key t e work)))"

text \<open>An engine for \<^verbatim>\<open>re.match\<close> with a pattern \<^verbatim>\<open>^\<close> followed by literal characters.\<close>

definition literal_match :: regex_engine where
  "literal_match pat s = Inr (prefix (if take 1 pat = ''^'' then drop 1 pat else pat) s)"

text \<open>Scenario S4: two repos whose names begin with \<^verbatim>\<open>snap1-\<close> exist on the server.\<close>

definition snapshot_server :: "bool \<Rightarrow> pulp_server" where
  "snapshot_server supported =
     \<lparr>server_name = ''p1'',
      repos = [example_repo 1 ''ext-foo'' (Some ''https://upstream/foo''),
               example_repo 2 ''snap1-ext-foo'' None, example_repo 3 ''snap1-ext-bar'' None],
      repo_sync_health_rollup_id = None, repo_sync_health_rollup_date = None,
      snapshot_supported = Some supported, max_concurrent_snapshots = Some 2\<rparr>"

definition snapshot_answers_example :: snapshot_answers where
  "snapshot_answers_example =
     \<lparr>reconcile_result = Inr (repos (snapshot_server True)), snapshots_result = Inr False\<rparr>"

definition reuse_guard_run :: run_result where
  "reuse_guard_run =
     snapshot_repos literal_match snapshot_answers_example 40 9 (snapshot_server True) Map.empty
       ''snap1'' None False"

text \<open>The same call on a server that does not support snapshots.\<close>

definition unsupported_run :: run_result where
  "unsupported_run =
     snapshot_repos literal_match snapshot_answers_example 40 9 (snapshot_server False)
       Map.empty ''snap1'' None False"

subsection \<open>The removal controller: \<^verbatim>\<open>RepoRemover.remove_repos\<close>\<close>

text \<open>
  What the backend answers: whether the deletions for a repo all succeed, and the exception
  of the reconcile that follows a batch with a successful deletion, if it raises.
\<close>

record removal_answers =
  deletions_succeed :: "pulp_server_repo \<Rightarrow> bool"
  reconcile_after_removal :: "error option"

text \<open>
  \<^verbatim>\<open>RepoRemover._remove_repos\<close>: a failed deletion is counted, not raised; only the
  reconcile can raise.
\<close>

definition remove_repos_batch ::
  "removal_answers \<Rightarrow> pulp_server_repo list \<Rightarrow> bool \<Rightarrow> error option \<times> backend_work list" where
  "remove_repos_batch answers repos_to_remove dry_run =
     (if repos_to_remove = [] then (None, [])
      else if dry_run then (None, [])
      else if length (filter (deletions_succeed answers) repos_to_remove) > 0
      then (reconcile_after_removal answers, [Remove_repos, Reconcile])
      else (None, [Remove_repos]))"

definition new_removal_task :: "nat \<Rightarrow> pulp_server \<Rightarrow> task" where
  "new_removal_task new_id p =
     \<lparr>task_id = new_id, name = server_name p @ '' repo removal'', parent_task_id = None,
      task_type_id = Some 5, state_id = Some 2, date_started = None, date_finished = None,
      date_last_updated = None, worker_name = Some ''worker'', worker_job_id = None,
      task_args = [], error_msg = None, error_detail = None\<rparr>"

text \<open>
  The \<^verbatim>\<open>except\<close> block of \<^verbatim>\<open>remove_repos\<close> updates the task and raises again; it does
  not commit, so the committed table keeps the row as it was.
\<close>

definition fail_without_commit ::
  "nat \<Rightarrow> task_table \<Rightarrow> task \<Rightarrow> error \<Rightarrow> backend_work list \<Rightarrow> run_result" where
  "fail_without_commit now db t e work =
     (case crud_update t
             [State (PyInt 4), Date_finished now,
              Error ''Failed to remove repositories'' (Some e)] of
        Inl e' \<Rightarrow>
          \<lparr>raised = Some e', committed = db, session_task = Some t, backend_work_done = work\<rparr>
      | Inr t' \<Rightarrow>
          \<lparr>raised = Some e, committed = db, session_task = Some t', backend_work_done = work\<rparr>)"

definition remove_repos ::
  "regex_engine \<Rightarrow> removal_answers \<Rightarrow> nat \<Rightarrow> nat \<Rightarrow> pulp_server \<Rightarrow> task_table
   \<Rightarrow> string option \<Rightarrow> string option \<Rightarrow> bool \<Rightarrow> nat option \<Rightarrow> run_result" where
  "remove_repos re_search answers now new_id p db regex_include regex_exclude dry_run tid =
     (if regex_include = None \<and> regex_exclude = None
      then \<lparr>raised = Some (ValueError
                             ''Must specify at least one of regex_include or regex_exclude''),
            committed = db, session_task = None, backend_work_done = []\<rparr>
      else
        (let key = parent_key tid new_id;
             started =
               (case tid of
                  None \<Rightarrow> Inr (new_removal_task new_id p)
                | Some i \<Rightarrow>
                    (case db i of
                       None \<Rightarrow> Inl (PulpManagerValueError ''Task with ID not found'')
                     | Some t \<Rightarrow>
                         crud_update t
                           [State_id 2, Worker_job_id None, Worker_name (Some ''worker'')]))
         in case started of
              Inl e \<Rightarrow>
                \<lparr>raised = Some e, committed = db, session_task = None, backend_work_done = []\<rparr>
            | Inr t \<Rightarrow>
                (let db1 = db(key \<mapsto> t)
                 in case get_repos_for_removal re_search p regex_include regex_exclude of
                      Inl e \<Rightarrow> fail_without_commit now db1 t e []
                    | Inr repos_to_remove \<Rightarrow>
                        (case remove_repos_batch answers repos_to_remove dry_run of
                           (Some e, work) \<Rightarrow> fail_without_commit now db1 t e work
                         | (None, work) \<Rightarrow>
                             (case crud_update t [State_id 3, Date_finished now] of
                                Inl e \<Rightarrow> fail_without_commit now db1 t e work
                              | Inr t' \<Rightarrow>
                                  \<lparr>raised = None, committed = db1(key \<mapsto> t'),
                                   session_task = Some t', backend_work_done = work\<rparr>)))))"

definition removal_answers_example :: removal_answers where
  "removal_answers_example =
     \<lparr>deletions_succeed = (\<lambda>r. True), reconcile_after_removal = None\<rparr>"

text \<open>A removal whose pattern selects no repo of the server.\<close>

definition no_match_removal_run :: run_result where
  "no_match_removal_run =
     remove_repos literal_search removal_answers_example 40 9 example_server Map.empty
       (Some ''tmp-'') None True None"

section \<open>Task types: storing a name and reading it back\<close>

lemma lower_lowercase_names:
  "lower ''repo_sync'' = ''repo_sync''"
  "lower ''repo_group_sync'' = ''repo_group_sync''"
  "lower ''repo_snapshot'' = ''repo_snapshot''"
  "lower ''repo_creation_from_git'' = ''repo_creation_from_git''"
  "lower ''repo_removal'' = ''repo_removal''"
  "lower ''remove_repo_content'' = ''remove_repo_content''"
  by (simp_all add: lower_def lower_char_def)

lemma task_type_roundtrip_five:
  assumes "n \<in> {''repo_sync'', ''repo_group_sync'', ''repo_snapshot'',
                 ''repo_creation_from_git'', ''repo_removal''}"
  shows "\<exists>t'. set_task_type (PyStr n) t = Inr t' \<and> task_type t' = Inr (Some n)"
  using assms
  by (auto simp: set_task_type_def task_type_def enum_value_def enum_name_def TaskType_def
      lower_lowercase_names)

text \<open>
  C2. Of the six task-type names, \<^verbatim>\<open>remove_repo_content\<close> does not survive the round trip:
  the class body gives it the value 5, which \<^verbatim>\<open>repo_removal\<close> already has, so the setter
  stores 5 and the getter reads the name \<^verbatim>\<open>repo_removal\<close> back. The conversion from the six
  names to the stored integers is not injective.
\<close>

theorem task_type_remove_repo_content_reads_repo_removal:
  "set_task_type (PyStr ''remove_repo_content'') t = Inr (t\<lparr>task_type_id := Some 5\<rparr>)
   \<and> task_type (t\<lparr>task_type_id := Some 5\<rparr>) = Inr (Some ''repo_removal'')
   \<and> enum_value TaskType ''remove_repo_content'' = enum_value TaskType ''repo_removal''"
  by (simp add: set_task_type_def task_type_def enum_value_def enum_name_def TaskType_def
      lower_lowercase_names)

section \<open>State changes through the task service\<close>

lemma member_value_known: "value2member TaskState (member_value s)"
  by (cases s) (simp_all add: value2member_def TaskState_def)

lemma enum_name_member_value: "enum_name TaskState (member_value s) = Some (member_name s)"
  by (cases s) (simp_all add: enum_name_def TaskState_def)

lemma set_state_unknown_int:
  "\<not> value2member TaskState i \<Longrightarrow> set_state (PyInt i) t = Inl (ValueError ''Invalid task state ID'')"
  by (simp add: set_state_def)

lemma serialisable_AList_update:
  "serialisable args \<Longrightarrow> v \<noteq> Not_serialisable \<Longrightarrow> serialisable (AList.update k v args)"
  by (induction args) (auto simp: serialisable_def)

lemma serialisable_stored: "serialisable (map (\<lambda>(k, v). (k, Json v)) stored)"
  by (induction stored) (auto simp: serialisable_def)

lemma serialisable_fold:
  "serialisable old \<Longrightarrow> serialisable new \<Longrightarrow>
   serialisable (fold (\<lambda>(k, v). AList.update k v) new old)"
proof (induction new arbitrary: old)
  case Nil
  then show ?case by simp
next
  case (Cons kv new)
  obtain k v where kv: "kv = (k, v)" by (cases kv)
  from Cons.prems(2) kv have v: "v \<noteq> Not_serialisable" and n: "serialisable new"
    by (simp_all add: serialisable_def)
  from Cons.IH [OF serialisable_AList_update [OF Cons.prems(1) v] n] kv show ?case
    by simp
qed

lemma serialisable_dict_merge_stored:
  "serialisable new \<Longrightarrow> serialisable (dict_merge (map (\<lambda>(k, v). (k, Json v)) stored) new)"
  unfolding dict_merge_def by (rule serialisable_fold [OF serialisable_stored])

text \<open>
  C1, as stated, fails: \<^verbatim>\<open>update_task\<close> has no transition check. A task stored as completed
  and updated with \<^verbatim>\<open>new_state = running\<close>, which I1 forbids, is stored as running.
\<close>

theorem update_task_completed_to_running_counterexample:
  "\<not> legal_transition Completed Running
   \<and> state completed_task = Inr (Some ''completed'')
   \<and> map_option state (fst (update_task one_task_table None 1 to_running) 1)
       = Some (Inr (Some ''running''))"
  by (simp add: update_task_def one_task_table_def to_running_def completed_task_def
      set_state_def state_def value2member_def enum_name_def TaskState_def dict_merge_def
      serialisable_def)

text \<open>
  C1, amended: an update of a stored task that names a new state, whose arguments
  serialise and whose commit succeeds is stored with the requested state, whatever state
  the task is in (the update is never refused on account of the current state); the call
  returns the updated task and leaves every other row as it was. For an unknown task id
  the call returns \<^verbatim>\<open>None\<close> and the table is unchanged.
\<close>

theorem update_task_stores_requested_state:
  "(db tid = Some t \<and> new_state u = Some s \<and> carried_out commit_error u \<longrightarrow>
      (\<exists>t'. update_task db commit_error tid u = (db(tid \<mapsto> t'), Inr (Some t'))
            \<and> state_id t' = Some (member_value s)
            \<and> state t' = Inr (Some (member_name s))))
   \<and> (db tid = None \<longrightarrow> update_task db commit_error tid u = (db, Inr None))"
proof (intro conjI impI)
  assume a: "db tid = Some t \<and> new_state u = Some s \<and> carried_out commit_error u"
  let ?args = "dict_merge (map (\<lambda>(k, v). (k, Json v)) (task_args t))
                 (case upd_task_args u of None \<Rightarrow> [] | Some a \<Rightarrow> a)"
  from a have "serialisable (case upd_task_args u of None \<Rightarrow> [] | Some a \<Rightarrow> a)"
    by (auto simp: carried_out_def serialisable_def split: option.splits)
  then have ok: "serialisable ?args"
    by (rule serialisable_dict_merge_stored)
  from a have c: "commit_error = None"
    by (simp add: carried_out_def)
  from a ok c show "\<exists>t'. update_task db commit_error tid u = (db(tid \<mapsto> t'), Inr (Some t'))
            \<and> state_id t' = Some (member_value s)
            \<and> state t' = Inr (Some (member_name s))"
    by (simp add: update_task_def set_state_def member_value_known state_def
        enum_name_member_value)
next
  assume "db tid = None"
  then show "update_task db commit_error tid u = (db, Inr None)"
    by (simp add: update_task_def)
qed

theorem update_task_stores_requested_state_witness:
  "one_task_table 1 = Some completed_task \<and> new_state to_running = Some Running
   \<and> carried_out None to_running
   \<and> (\<exists>t'. update_task one_task_table None 1 to_running
              = (one_task_table(1 \<mapsto> t'), Inr (Some t'))
            \<and> state_id t' = Some 2 \<and> state t' = Inr (Some ''running''))
   \<and> update_task one_task_table None 2 to_running = (one_task_table, Inr None)"
proof -
  have a: "one_task_table 1 = Some completed_task"
    by (simp add: one_task_table_def)
  have b: "new_state to_running = Some Running"
    by (simp add: to_running_def)
  have c: "carried_out None to_running"
    by (simp add: carried_out_def to_running_def serialisable_def)
  have d: "one_task_table 2 = None"
    by (simp add: one_task_table_def)
  show ?thesis
    using a b c d
      update_task_stores_requested_state
        [of one_task_table 1 completed_task to_running Running None]
      update_task_stores_requested_state
        [of one_task_table 2 completed_task to_running Running None]
    by simp
qed

text \<open>
  An update that is not carried out raises and leaves the table as it was: no
  \<^verbatim>\<open>new_state\<close>, arguments that do not serialise, or a failing commit.
\<close>

lemma update_task_without_new_state:
  "db tid = Some t \<Longrightarrow> new_state u = None \<Longrightarrow>
   update_task db commit_error tid u = (db, Inl (KeyError ''new_state''))"
  by (simp add: update_task_def)

lemma update_task_commit_fails:
  "db tid = Some t \<Longrightarrow> fst (update_task db (Some e) tid u) = db
     \<and> isl (snd (update_task db (Some e) tid u))"
  by (simp add: update_task_def split: option.splits sum.splits)

lemma update_task_not_serialisable:
  "update_task one_task_table None 1
     (to_running\<lparr>upd_task_args := Some [(''when'', Not_serialisable)]\<rparr>)
   = (one_task_table, Inl (TypeError ''Object is not JSON serializable''))"
  by (simp add: update_task_def one_task_table_def to_running_def completed_task_def
      set_state_def value2member_def TaskState_def dict_merge_def serialisable_def)

section \<open>Selecting repos\<close>








section \<open>Repo health after a sync run\<close>

lemma count_syncs_eq:
  "states_readable ts \<Longrightarrow>
   count_syncs ts s f =
     Inr (s + length (filter (\<lambda>st. st = Some ''completed'') (map state_name ts)),
          f + length (filter (\<lambda>st. st \<noteq> Some ''completed'') (map state_name ts)))"
proof (induction ts arbitrary: s f)
  case Nil
  then show ?case by simp
next
  case (Cons t ts)
  from Cons.prems obtain st where st: "state t = Inr st"
    by (cases "state t") (auto simp: states_readable_def)
  from Cons.prems have "states_readable ts"
    by (simp add: states_readable_def)
  with Cons.IH st show ?case
    by (simp add: state_name_def)
qed

lemma health_of_last_syncs_classify:
  assumes "states_readable ts" and "ts \<noteq> []"
  shows "health_of_last_syncs ts = Inr (classify_not_completed (map state_name ts))"
proof -
  from assms(2) obtain t rest where ts: "ts = t # rest"
    by (cases ts) auto
  from assms(1) ts obtain st where st: "state t = Inr st"
    by (cases "state t") (auto simp: states_readable_def)
  have sn: "state_name t = st"
    by (simp add: state_name_def st)
  show ?thesis
    unfolding health_of_last_syncs_def count_syncs_eq [OF assms(1)]
    by (auto simp: ts st sn classify_not_completed_def Let_def Suc_le_eq)
qed


lemma lower_health_names:
  "lower ''green'' = ''green''" "lower ''amber'' = ''amber''" "lower ''red'' = ''red''"
  by (simp_all add: lower_def lower_char_def)

lemma set_repo_sync_health_read_back:
  assumes "h \<in> {''green'', ''amber'', ''red''}"
  shows "\<exists>r'. set_repo_sync_health h r = Inr r'
              \<and> repo_sync_health (r'\<lparr>repo_sync_health_date := d\<rparr>) = Inr (Some h)"
  using assms
  by (auto simp: set_repo_sync_health_def repo_sync_health_def enum_value_def enum_name_def
      RepoHealthStatus_def lower_health_names)

text \<open>
  C4, as stated, fails when a task among the five is neither completed nor failed: the
  loop counts every task that is not completed in \<^verbatim>\<open>num_fail\<close>. A repo whose latest sync
  was canceled and whose sync before completed has no failed task, so I4 gives red; the
  health stored is amber.
\<close>

theorem repo_health_canceled_counterexample:
  "map state_name (filter_paged_last_five canceled_links 1)
     = [Some ''canceled'', Some ''completed'']
   \<and> classify [Some ''canceled'', Some ''completed''] = ''red''
   \<and> map repo_sync_health
        (fst (calculate_repo_health canceled_links 50
                [example_repo 1 ''ext-foo'' (Some ''https://upstream/foo'')]))
     = [Inr (Some ''amber'')]"
  by (simp add: filter_paged_last_five_def canceled_links_def state_name_def state_def
      task_in_state_def enum_name_def TaskState_def classify_def example_repo_def
      health_of_last_syncs_def set_repo_sync_health_def repo_sync_health_def enum_value_def
      RepoHealthStatus_def lower_health_names)

text \<open>
  C4, amended: when every repo of the run has at least one linked task (the run has just
  created one for each) and the state of each of its last five linked tasks can be read
  (its \<^verbatim>\<open>state_id\<close> is a value of \<^verbatim>\<open>TaskState\<close>), the run raises nothing and the health
  stored for each repo is the classification of its last five linked tasks, most recent
  first: green if the most recent is completed; amber if between one and three of them are
  not completed and at least one is completed; red otherwise.
\<close>

theorem repo_health_is_classification_of_last_five:
  assumes "list_all (\<lambda>r. filter_paged_last_five linked_tasks (repo_id r) \<noteq> []
                        \<and> states_readable (filter_paged_last_five linked_tasks (repo_id r))) rs"
  shows "snd (calculate_repo_health linked_tasks now rs) = None
         \<and> map repo_sync_health (fst (calculate_repo_health linked_tasks now rs))
           = map (\<lambda>r. Inr (Some (classify_not_completed (map state_name
                                   (filter_paged_last_five linked_tasks (repo_id r)))))) rs"
  using assms
proof (induction rs)
  case Nil
  then show ?case by simp
next
  case (Cons r rs)
  let ?ts = "filter_paged_last_five linked_tasks (repo_id r)"
  have h: "health_of_last_syncs ?ts = Inr (classify_not_completed (map state_name ?ts))"
    using Cons.prems by (simp add: health_of_last_syncs_classify)
  have c: "classify_not_completed (map state_name ?ts) \<in> {''green'', ''amber'', ''red''}"
    by (simp add: classify_not_completed_def Let_def)
  from set_repo_sync_health_read_back [OF c, of r "Some now"]
  obtain r' where r': "set_repo_sync_health (classify_not_completed (map state_name ?ts)) r = Inr r'"
    "repo_sync_health (r'\<lparr>repo_sync_health_date := Some now\<rparr>)
       = Inr (Some (classify_not_completed (map state_name ?ts)))"
    by blast
  from Cons have ih: "snd (calculate_repo_health linked_tasks now rs) = None
         \<and> map repo_sync_health (fst (calculate_repo_health linked_tasks now rs))
           = map (\<lambda>r. Inr (Some (classify_not_completed (map state_name
                                   (filter_paged_last_five linked_tasks (repo_id r)))))) rs"
    by simp
  show ?case
    using ih by (auto simp: h r' split: prod.splits)
qed

theorem repo_health_is_classification_of_last_five_witness:
  "list_all (\<lambda>r. filter_paged_last_five example_links (repo_id r) \<noteq> []
                  \<and> states_readable (filter_paged_last_five example_links (repo_id r)))
     (repos example_server)
   \<and> snd (calculate_repo_health example_links 50 (repos example_server)) = None
   \<and> map repo_sync_health (fst (calculate_repo_health example_links 50 (repos example_server)))
     = [Inr (Some ''amber''), Inr (Some ''green''), Inr (Some ''green'')]"
proof -
  have r: "state (task_in_state i 6) = Inr (Some ''failed_to_start'')"
    "state (task_in_state i 3) = Inr (Some ''completed'')"
    "state (task_in_state i 4) = Inr (Some ''failed'')" for i
    by (simp_all add: state_def task_in_state_def enum_name_def TaskState_def)
  have a: "list_all (\<lambda>r. filter_paged_last_five example_links (repo_id r) \<noteq> []
                  \<and> states_readable (filter_paged_last_five example_links (repo_id r)))
     (repos example_server)"
    by (simp add: example_server_def example_repo_def filter_paged_last_five_def
        example_links_def states_readable_def r)
  show ?thesis
    using a repo_health_is_classification_of_last_five [of example_links "repos example_server" 50]
    by (simp add: example_server_def example_repo_def filter_paged_last_five_def
        example_links_def state_name_def r classify_not_completed_def)
qed

section \<open>The server rollup\<close>

lemma count_health_eq:
  "healths_readable rs \<Longrightarrow>
   count_health rs g a r =
     Inr (g + length (filter (\<lambda>h. h = Some ''green'') (map health_name rs)),
          a + length (filter (\<lambda>h. h = Some ''amber'') (map health_name rs)),
          r + length (filter (\<lambda>h. h \<noteq> Some ''green'' \<and> h \<noteq> Some ''amber'')
                        (map health_name rs)))"
proof (induction rs arbitrary: g a r)
  case Nil
  then show ?case by simp
next
  case (Cons x xs)
  from Cons.prems obtain h where h: "repo_sync_health x = Inr h"
    by (cases "repo_sync_health x") (auto simp: healths_readable_def)
  from Cons.prems have "healths_readable xs"
    by (simp add: healths_readable_def)
  with Cons.IH h show ?case
    by (simp add: health_name_def)
qed

lemma rollup_after_counts:
  assumes "count_health (repos p) 0 0 0 = Inr (g, a, r)"
  shows "rollup_after now p
           = Inr (Some (if 0 < r then ''red'' else if 0 < a then ''amber'' else ''green''))"
  using assms
  by (simp add: rollup_after_def calculate_pulp_server_repo_health_rollup_def
      set_repo_sync_health_rollup_def repo_sync_health_rollup_def enum_value_def
      enum_name_def RepoHealthStatus_def lower_health_names)

lemma filter_nonempty_iff: "0 < length (filter P xs) \<longleftrightarrow> (\<exists>x\<in>set xs. P x)"
  by (simp add: filter_empty_conv)

text \<open>
  C5, amended: the rollup is red if some repo's health is neither green nor amber, that
  is red or unset; else amber if some repo is amber; else green.
\<close>

theorem rollup_counts_unset_as_red:
  assumes "healths_readable (repos p)"
  shows "rollup_after now p =
     Inr (Some (if \<exists>h\<in>set (map health_name (repos p)). h \<noteq> Some ''green'' \<and> h \<noteq> Some ''amber''
                then ''red''
                else if Some ''amber'' \<in> set (map health_name (repos p)) then ''amber''
                else ''green''))"
proof -
  let ?hs = "map health_name (repos p)"
  let ?r = "length (filter (\<lambda>h. h \<noteq> Some ''green'' \<and> h \<noteq> Some ''amber'') ?hs)"
  let ?a = "length (filter (\<lambda>h. h = Some ''amber'') ?hs)"
  have r: "0 < ?r \<longleftrightarrow> (\<exists>h\<in>set ?hs. h \<noteq> Some ''green'' \<and> h \<noteq> Some ''amber'')"
    by (rule filter_nonempty_iff)
  have a: "0 < ?a \<longleftrightarrow> Some ''amber'' \<in> set ?hs"
    unfolding filter_nonempty_iff by auto
  have "count_health (repos p) 0 0 0
          = Inr (length (filter (\<lambda>h. h = Some ''green'') ?hs), ?a, ?r)"
    using count_health_eq [OF assms, of 0 0 0] by simp
  from rollup_after_counts [OF this, of now] show ?thesis
    unfolding r a .
qed

text \<open>
  C5, as stated, fails for a repo whose health is unset: the loop counts every health that
  is neither green nor amber as red, so a server whose only repo has no health yet rolls up
  to red, where the rule of I3 gives green.
\<close>

theorem rollup_unset_health_counterexample:
  "rollup_after 5 unset_health_server = Inr (Some ''red'')
   \<and> map health_name (repos unset_health_server) = [None]
   \<and> rollup (map health_name (repos unset_health_server)) = ''green''"
  by (simp add: rollup_after_def calculate_pulp_server_repo_health_rollup_def
      unset_health_server_def example_repo_def repo_sync_health_def health_name_def rollup_def
      set_repo_sync_health_rollup_def repo_sync_health_rollup_def enum_value_def enum_name_def
      RepoHealthStatus_def lower_health_names)

theorem rollup_counts_unset_as_red_witness:
  "healths_readable (repos unset_health_server)
   \<and> rollup_after 5 unset_health_server = Inr (Some ''red'')"
proof -
  have a: "healths_readable (repos unset_health_server)"
    by (simp add: healths_readable_def unset_health_server_def example_repo_def
        repo_sync_health_def)
  show ?thesis
    using a rollup_counts_unset_as_red [of unset_health_server 5]
    by (simp add: unset_health_server_def example_repo_def health_name_def repo_sync_health_def)
qed

section \<open>After the sync stage of a child task\<close>

lemma lower_state_names:
  "lower ''completed'' = ''completed''" "lower ''failed'' = ''failed''"
  "lower ''running'' = ''running''" "lower ''failed_to_start'' = ''failed_to_start''"
  by (simp_all add: lower_def lower_char_def)

lemma mark_completed:
  "mark now ''completed'' t = (Inr True, t\<lparr>state_id := Some 3, date_finished := Some now\<rparr>, [])"
  by (simp add: mark_def set_state_def enum_value_def TaskState_def lower_state_names)

lemma mark_failed:
  "mark now ''failed'' t = (Inr True, t\<lparr>state_id := Some 4, date_finished := Some now\<rparr>, [])"
  by (simp add: mark_def set_state_def enum_value_def TaskState_def lower_state_names)

lemma start_publication_ok:
  "start_publication_result answers = None \<Longrightarrow> start_publication answers now t = (None, t)"
  by (simp add: start_publication_def)

text \<open>
  C3, amended: in a running child task whose backend sync task has completed, when the
  task's \<^verbatim>\<open>repo_href\<close> and the backend task's \<^verbatim>\<open>created_resources\<close> can be read and the
  publication lookup answers, the child is marked completed and the remaining stages are
  skipped exactly when a publication of the repo's \<^verbatim>\<open>latest_version_href\<close> exists or the
  repo href is a container repo's; whether the sync created resources plays no part. In
  every other such case the remove-banned-packages stage is entered, and the run advances
  exactly when the next stage starts without raising.
\<close>

theorem sync_stage_skips_on_publication_or_container:
  assumes "get_task_result answers = Inr pulp_task"
    and "pulp_state pulp_task = ''completed''"
    and "state_id t = Some 2"
    and "\<not> created_message_raises pulp_task"
    and "map_of (task_args t) ''repo_href'' = Some href"
    and "publication_exists_result answers = Inr exists"
  shows "(skipped_and_completed now t
            (progress_sync answers now t SYNC_STAGE_NAME (Some task_href))
          \<longleftrightarrow> exists \<or> sublist ''/container/'' href)
         \<and> (advanced answers t (progress_sync answers now t SYNC_STAGE_NAME (Some task_href))
          \<longleftrightarrow> \<not> (exists \<or> sublist ''/container/'' href) \<and> next_stage_starts answers)
         \<and> (\<not> (exists \<or> sublist ''/container/'' href) \<longrightarrow>
              take 1 (snd (snd (progress_sync answers now t SYNC_STAGE_NAME (Some task_href))))
                = [Start_remove_banned_packages])"
proof -
  have s: "progress_sync answers now t SYNC_STAGE_NAME (Some task_href)
             = progress_sync_stage answers pulp_task now t"
    using assms(1,2) by (simp add: progress_sync_def)
  have n: "t\<lparr>state_id := Some 3, date_finished := Some now\<rparr> \<noteq> t"
  proof
    assume "t\<lparr>state_id := Some 3, date_finished := Some now\<rparr> = t"
    then have "state_id (t\<lparr>state_id := Some 3, date_finished := Some now\<rparr>) = state_id t"
      by simp
    with assms(3) show False by simp
  qed
  show ?thesis
  proof (cases "exists \<or> sublist ''/container/'' href")
    case True
    then have "progress_sync_stage answers pulp_task now t
                 = (Inr True, t\<lparr>state_id := Some 3, date_finished := Some now\<rparr>, [])"
      using assms(4,5,6) by (auto simp: progress_sync_stage_def mark_completed)
    with True show ?thesis
      unfolding s by (simp add: skipped_and_completed_def advanced_def)
  next
    case False
    have f: "\<not> exists" "\<not> sublist ''/container/'' href"
      using False by auto
    show ?thesis
    proof (cases "start_remove_banned_packages_result answers")
      case (Inl e)
      with f assms(4,5,6) n show ?thesis
        unfolding s
        by (simp add: progress_sync_stage_def skipped_and_completed_def advanced_def
            next_stage_starts_def)
    next
      case (Inr started)
      show ?thesis
      proof (cases started)
        case True
        with Inr f assms(4,5,6) n show ?thesis
          unfolding s
          by (simp add: progress_sync_stage_def skipped_and_completed_def advanced_def
              next_stage_starts_def)
      next
        case False
        show ?thesis
        proof (cases "start_publication_result answers")
          case None
          with False Inr f assms(4,5,6) n show ?thesis
            unfolding s
            by (simp add: progress_sync_stage_def skipped_and_completed_def advanced_def
                next_stage_starts_def start_publication_ok)
        next
          case (Some e)
          with False Inr f assms(4,5,6) n show ?thesis
            unfolding s
            by (auto simp: progress_sync_stage_def skipped_and_completed_def advanced_def
                next_stage_starts_def start_publication_def split: sum.splits)
        qed
      qed
    qed
  qed
qed

lemma sublist_container_examples:
  "sublist ''/container/'' ''/pulp/api/v3/repositories/container/container/1/''"
  "\<not> sublist ''/container/'' ''/pulp/api/v3/repositories/rpm/rpm/1/''"
  by code_simp+

text \<open>
  C3, as stated, fails in both directions of its condition on created resources: a sync
  that created a repository version whose publication already exists is completed without
  further stages, and so is a container repo with nothing created and no publication.
\<close>

theorem sync_stage_created_resources_counterexample:
  "\<not> nothing_new_and_published (completed_sync [''/pulp/api/v3/repositories/rpm/rpm/1/versions/2/'']) True
   \<and> progress_sync
        (sync_answers_example [''/pulp/api/v3/repositories/rpm/rpm/1/versions/2/''] True) 30
        (running_sync_task ''/pulp/api/v3/repositories/rpm/rpm/1/'') SYNC_STAGE_NAME
        (Some ''/pulp/api/v3/tasks/1/'')
      = (Inr True,
         (running_sync_task ''/pulp/api/v3/repositories/rpm/rpm/1/'')
           \<lparr>state_id := Some 3, date_finished := Some 30\<rparr>, [])
   \<and> \<not> nothing_new_and_published (completed_sync []) False
   \<and> progress_sync (sync_answers_example [] False) 30
        (running_sync_task ''/pulp/api/v3/repositories/container/container/1/'') SYNC_STAGE_NAME
        (Some ''/pulp/api/v3/tasks/1/'')
      = (Inr True,
         (running_sync_task ''/pulp/api/v3/repositories/container/container/1/'')
           \<lparr>state_id := Some 3, date_finished := Some 30\<rparr>, [])"
  by (simp add: nothing_new_and_published_def completed_sync_def sync_answers_example_def
      progress_sync_def progress_sync_stage_def created_message_raises_def mark_completed
      running_sync_task_def sublist_container_examples)

theorem sync_stage_skips_on_publication_or_container_witness:
  "get_task_result (sync_answers_example [] False) = Inr (completed_sync [])
   \<and> pulp_state (completed_sync []) = ''completed''
   \<and> state_id (running_sync_task ''/pulp/api/v3/repositories/rpm/rpm/1/'') = Some 2
   \<and> \<not> created_message_raises (completed_sync [])
   \<and> map_of (task_args (running_sync_task ''/pulp/api/v3/repositories/rpm/rpm/1/'')) ''repo_href''
       = Some ''/pulp/api/v3/repositories/rpm/rpm/1/''
   \<and> publication_exists_result (sync_answers_example [] False) = Inr False
   \<and> advanced (sync_answers_example [] False)
        (running_sync_task ''/pulp/api/v3/repositories/rpm/rpm/1/'')
        (progress_sync (sync_answers_example [] False) 30
           (running_sync_task ''/pulp/api/v3/repositories/rpm/rpm/1/'') SYNC_STAGE_NAME
           (Some ''/pulp/api/v3/tasks/1/''))
   \<and> progress_sync (sync_answers_example [] False) 30
        (running_sync_task ''/pulp/api/v3/repositories/rpm/rpm/1/'') SYNC_STAGE_NAME
        (Some ''/pulp/api/v3/tasks/1/'')
      = (Inr False, running_sync_task ''/pulp/api/v3/repositories/rpm/rpm/1/'',
         [Start_remove_banned_packages, Start_publication])"
proof -
  have a: "get_task_result (sync_answers_example [] False) = Inr (completed_sync [])"
    by (simp add: sync_answers_example_def)
  have b: "pulp_state (completed_sync []) = ''completed''"
    by (simp add: completed_sync_def)
  have c: "state_id (running_sync_task ''/pulp/api/v3/repositories/rpm/rpm/1/'') = Some 2"
    by (simp add: running_sync_task_def)
  have d: "\<not> created_message_raises (completed_sync [])"
    by (simp add: created_message_raises_def completed_sync_def)
  have e: "map_of (task_args (running_sync_task ''/pulp/api/v3/repositories/rpm/rpm/1/''))
             ''repo_href'' = Some ''/pulp/api/v3/repositories/rpm/rpm/1/''"
    by (simp add: running_sync_task_def)
  have f: "publication_exists_result (sync_answers_example [] False) = Inr False"
    by (simp add: sync_answers_example_def)
  have g: "next_stage_starts (sync_answers_example [] False)"
    by (simp add: next_stage_starts_def sync_answers_example_def)
  have h: "start_remove_banned_packages_result (sync_answers_example [] False) = Inr False"
    by (simp add: sync_answers_example_def)
  show ?thesis
    using a b c d e f g
      sync_stage_skips_on_publication_or_container
        [OF a b c d e f, of 30 "''/pulp/api/v3/tasks/1/''"]
    by (simp add: sublist_container_examples advanced_def h)
qed

text \<open>
  When the publication lookup raises, the handler of the stage returns \<open>True\<close>: the child
  leaves the in-flight set with its row still running.
\<close>

lemma sync_stage_lookup_raises:
  assumes "get_task_result answers = Inr pulp_task"
    and "pulp_state pulp_task = ''completed''"
    and "publication_exists_result answers = Inl e"
  shows "progress_sync answers now t SYNC_STAGE_NAME (Some task_href) = (Inr True, t, [])"
  using assms
  by (simp add: progress_sync_def progress_sync_stage_def split: option.splits)

section \<open>Publishing after a content removal\<close>



text \<open>A modify task that carries no list of created resources makes the lines raise.\<close>

lemma publish_after_modify_no_list:
  "pulp_state modify_pulp_task = ''completed'' \<Longrightarrow> created_resources modify_pulp_task = None \<Longrightarrow>
   publish_after_modify answers pulp_repo modify_pulp_task force_publish
     = Inl (TypeError ''object of type NoneType has no len()'')"
  by (simp add: publish_after_modify_def)

section \<open>Syncs in flight and children in state running\<close>

text \<open>
  \<^verbatim>\<open>tasks_in_progress\<close> grows only in the inner \<^verbatim>\<open>while\<close>, one key at a time and only while
  its size differs from \<^verbatim>\<open>max_concurrent_syncs\<close>; the \<^verbatim>\<open>for\<close> loop only deletes from it.
\<close>

lemma length_dict_del: "length (snd (dict_del t d)) \<le> length d"
  by (simp add: dict_del_def length_remove1)

lemma fill_from_end_bound:
  "int (length d) \<le> k \<Longrightarrow> fill_from_end k ts d = (left, d', seen) \<Longrightarrow>
   int (length d') \<le> k \<and> list_all (\<lambda>x. int (length x) \<le> k) seen"
proof (induction ts arbitrary: d left d' seen)
  case Nil
  then show ?case by simp
next
  case (Cons t ts)
  show ?case
  proof (cases "int (length d) \<noteq> k")
    case True
    have b: "int (length (dict_set t d)) \<le> k"
      using True Cons.prems(1) by (simp add: dict_set_def)
    obtain l1 d1 s1 where f: "fill_from_end k ts (dict_set t d) = (l1, d1, s1)"
      by (metis prod_cases3)
    from Cons.IH [OF b f] Cons.prems(2) True f b show ?thesis by auto
  next
    case False
    then show ?thesis using Cons.prems by auto
  qed
qed

lemma step_task_bound:
  "step_task a now i d r = (err, d1, r1) \<Longrightarrow> length d1 \<le> length d"
  using length_dict_del [of i d]
  by (auto simp: step_task_def dict_del_def length_remove1 le_diff_conv
      split: prod.splits option.splits sum.splits if_splits)

lemma poll_tasks_bound:
  "poll_tasks answers now children ts d r = (err, d', r', seen) \<Longrightarrow>
   length d' \<le> length d \<and> list_all (\<lambda>x. length (fst x) \<le> length d) seen"
proof (induction ts arbitrary: d r err d' r' seen)
  case Nil
  then show ?case by simp
next
  case (Cons i ts)
  obtain e1 d1 r1 where s: "step_task (answers i) now i d r = (e1, d1, r1)"
    by (metis prod_cases3)
  have b: "length d1 \<le> length d" using step_task_bound [OF s] .
  show ?case
  proof (cases e1)
    case (Some e)
    then show ?thesis using Cons.prems s b by (auto simp: tick_of_def)
  next
    case None
    obtain e2 d2 r2 s2 where p: "poll_tasks answers now children ts d1 r1 = (e2, d2, r2, s2)"
      by (metis prod_cases4)
    have ih: "length d2 \<le> length d1 \<and> list_all (\<lambda>x. length (fst x) \<le> length d1) s2"
      using Cons.IH [OF p] .
    then have "list_all (\<lambda>x. length (fst x) \<le> length d) s2"
      using b by (auto simp: list_all_iff)
    then show ?thesis using Cons.prems s b None p ih by (auto simp: tick_of_def)
  qed
qed

lemma do_sync_loop_bound:
  "0 < k \<Longrightarrow> int (length d) \<le> k \<Longrightarrow>
   list_all (\<lambda>x. int (length (fst x)) \<le> k)
     (snd (do_sync_loop fuel answers now n k children pending d r))"
proof (induction fuel arbitrary: n pending d r)
  case 0
  then show ?case by (simp add: tick_of_def)
next
  case (Suc fuel)
  show ?case
  proof (cases "length pending > 0 \<or> length d > 0")
    case False
    then show ?thesis using Suc.prems by (simp add: tick_of_def)
  next
    case True
    obtain p1 d1 s1 where f: "fill k pending d = (p1, d1, s1)" by (metis prod_cases3)
    then obtain l1 where f': "fill_from_end k (rev pending) d = (l1, d1, s1)"
      by (auto simp: fill_def split: prod.splits)
    have b1: "int (length d1) \<le> k \<and> list_all (\<lambda>x. int (length x) \<le> k) s1"
      using fill_from_end_bound [OF Suc.prems(2) f'] .
    then have m1: "list_all (\<lambda>x. int (length (fst x)) \<le> k) (map (tick_of r children) s1)"
      by (simp add: list_all_iff tick_of_def)
    obtain e2 d2 r2 s2 where p: "poll_tasks (answers n) now children d1 d1 r = (e2, d2, r2, s2)"
      by (metis prod_cases4)
    have b2: "length d2 \<le> length d1 \<and> list_all (\<lambda>x. length (fst x) \<le> length d1) s2"
      using poll_tasks_bound [OF p] .
    then have m2: "list_all (\<lambda>x. int (length (fst x)) \<le> k) s2"
      using b1 by (auto simp: list_all_iff)
    have d2: "int (length d2) \<le> k" using b1 b2 by simp
    have b3: "list_all (\<lambda>x. int (length (fst x)) \<le> k)
                (snd (do_sync_loop fuel answers now (n + 1) k children p1 d2 r2))"
      using Suc.IH [OF Suc.prems(1) d2] .
    show ?thesis
    proof (cases e2)
      case (Some e)
      then show ?thesis using True f p m1 m2 Suc.prems(2) by (simp add: tick_of_def)
    next
      case None
      then show ?thesis using True f p m1 m2 b3 Suc.prems(2)
        by (auto simp: tick_of_def split: prod.splits)
    qed
  qed
qed

text \<open>
  The size of \<^verbatim>\<open>tasks_in_progress\<close> is at most \<open>k\<close> at every point of the loop, whatever the
  backend answers and for any number of iterations.
\<close>

lemma tasks_in_progress_within_max_concurrent_syncs:
  "0 < k \<Longrightarrow>
   list_all (\<lambda>x. int (length (fst x)) \<le> k)
     (snd (do_sync_repos fuel answers now k r repo_tasks))"
  unfolding do_sync_repos_def by (rule do_sync_loop_bound) simp_all

text \<open>
  A child leaves \<^verbatim>\<open>tasks_in_progress\<close> when \<^verbatim>\<open>_progress_sync\<close> returns \<^verbatim>\<open>True\<close>. The handler
  of the sync stage returns \<^verbatim>\<open>True\<close> on any exception and leaves the state of the task as
  it was: running.
\<close>

lemma swallowed_exception_leaves_child_running:
  assumes "has_stages a"
    and "current_stage_name a = SYNC_STAGE_NAME"
    and "current_task_href a = Some task_href"
    and "get_task_result (backend a) = Inr pulp_task"
    and "pulp_state pulp_task = ''completed''"
    and "publication_exists_result (backend a) = Inl e"
    and "i \<in> set d"
  shows "step_task a now i d r = (None, remove1 i d, r)"
proof -
  have "progress_sync (backend a) now (r i) (current_stage_name a) (current_task_href a)
          = (Inr True, r i, [])"
    using assms(2-6)
    by (simp add: progress_sync_def progress_sync_stage_def split: option.splits)
  then show ?thesis
    using assms(1,7) by (simp add: step_task_def dict_del_def)
qed

text \<open>
  C10. With \<^verbatim>\<open>max_concurrent_syncs = 1\<close> and the two queued children 1 and 2, on a backend
  whose sync tasks complete and whose publication lookup raises: child 1 is started, its
  sync stage ends in the handler that returns \<^verbatim>\<open>True\<close>, and it leaves
  \<^verbatim>\<open>tasks_in_progress\<close> in state running; child 2 is started next, and from then on two
  children are in state running, one more than \<^verbatim>\<open>max_concurrent_syncs\<close>. The run finishes
  with both still running. Each pair is \<^verbatim>\<open>tasks_in_progress\<close> and the children in state
  running, in the order of the loop.
\<close>

theorem running_children_exceed_max_concurrent_syncs:
  "do_sync_repos 5 lookup_fails 40 1 queued_child [2, 1]
     = (Finished,
        [([], []), ([1], []), ([1], [1]), ([1], [1]), ([], [1]), ([], [1]),
         ([2], [1]), ([2], [2, 1]), ([2], [2, 1]), ([], [2, 1]), ([], [2, 1])])"
  by code_simp

section \<open>The snapshot reuse guard\<close>

lemma snapshot_allowed_raises:
  assumes "list_all (\<lambda>r. \<not> isl (re_match (''^'' @ pre) (repo_name r))) rs"
    and "\<exists>r\<in>set rs. re_match (''^'' @ pre) (repo_name r) = Inr True"
  shows "snapshot_allowed re_match pre rs
           = Some (PulpManagerSnapshotError (''snapshots with prefix '' @ pre @ '' already exist''))"
  using assms
proof (induction rs)
  case Nil
  then show ?case by simp
next
  case (Cons r rs)
  from Cons.prems(1) obtain b where b: "re_match (''^'' @ pre) (repo_name r) = Inr b"
    by (cases "re_match (''^'' @ pre) (repo_name r)") auto
  show ?case
  proof (cases b)
    case True
    with b show ?thesis by simp
  next
    case False
    with b Cons show ?thesis by auto
  qed
qed

lemma fail_and_commit_failed:
  "fail_and_commit msg now db key t e work =
     \<lparr>raised = Some e,
      committed = db(key \<mapsto> t\<lparr>state_id := Some 4, date_finished := Some now,
                                 error_msg := Some msg, error_detail := Some e\<rparr>),
      session_task = Some (t\<lparr>state_id := Some 4, date_finished := Some now,
                             error_msg := Some msg, error_detail := Some e\<rparr>),
      backend_work_done = work\<rparr>"
  by (simp add: fail_and_commit_def set_state_def enum_value_def TaskState_def lower_state_names)

lemma state_failed:
  "state (t\<lparr>state_id := Some 4, date_finished := d, error_msg := m, error_detail := e\<rparr>)
     = Inr (Some ''failed'')"
  by (simp add: state_def enum_name_def TaskState_def)

lemma literal_match_snap1:
  "literal_match ''^snap1-'' ''ext-foo'' = Inr False"
  "literal_match ''^snap1-'' ''snap1-ext-foo'' = Inr True"
  "literal_match ''^snap1-'' ''snap1-ext-bar'' = Inr True"
  by (simp_all add: literal_match_def)

lemma normalize_snap1: "normalize_prefix ''snap1'' = ''snap1-''"
  by (simp add: normalize_prefix_def suffix_def)

text \<open>
  C6, as stated, fails in scenario S4: the guard is checked after the reconcile, which
  fetches the backend's repos, and the error message stored on the parent task is
  \<^verbatim>\<open>failed to snapshot repos\<close>; the text of the claim is the message of the exception
  that is raised.
\<close>

theorem snapshot_reuse_guard_counterexample:
  "snapshot_supported (snapshot_server True) = Some True
   \<and> prefix (normalize_prefix ''snap1'') (repo_name (example_repo 2 ''snap1-ext-foo'' None))
   \<and> example_repo 2 ''snap1-ext-foo'' None \<in> set (repos (snapshot_server True))
   \<and> raised reuse_guard_run
       = Some (PulpManagerSnapshotError ''snapshots with prefix snap1- already exist'')
   \<and> backend_work_done reuse_guard_run = [Reconcile]
   \<and> map_option error_msg (committed reuse_guard_run 9) = Some (Some ''failed to snapshot repos'')"
  by (simp add: reuse_guard_run_def snapshot_repos_def Let_def snapshot_try_block_def
      snapshot_answers_example_def snapshot_server_def example_repo_def literal_match_snap1
      normalize_snap1 fail_and_commit_failed parent_key_def new_snapshot_task_def)

text \<open>
  C6, amended: if \<^verbatim>\<open>allow_snapshot_reuse\<close> is false, the server supports snapshots, the
  reconcile succeeds and the name of some repo it leaves matches \<^verbatim>\<open>^\<close> followed by the
  dash-normalized prefix, then \<^verbatim>\<open>snapshot_repos\<close> raises \<^verbatim>\<open>PulpManagerSnapshotError\<close> with
  the message \<^verbatim>\<open>snapshots with prefix <prefix> already exist\<close> after the reconcile and before
  any repo is snapshotted, and the committed parent task is failed, with
  \<^verbatim>\<open>date_finished\<close> set, the error message \<^verbatim>\<open>failed to snapshot repos\<close> and the raised
  exception as the error detail.
\<close>

theorem snapshot_reuse_guard_fails_after_reconcile:
  assumes "snapshot_supported p = Some True"
    and "case tid of None \<Rightarrow> True | Some i \<Rightarrow> db i \<noteq> None"
    and "reconcile_result answers = Inr rs"
    and "list_all (\<lambda>r. \<not> isl (re_match (''^'' @ normalize_prefix pre) (repo_name r))) rs"
    and "\<exists>r\<in>set rs. re_match (''^'' @ normalize_prefix pre) (repo_name r) = Inr True"
  shows "raised (snapshot_repos re_match answers now new_id p db pre tid False)
           = Some (PulpManagerSnapshotError
                     (''snapshots with prefix '' @ normalize_prefix pre @ '' already exist''))
         \<and> backend_work_done (snapshot_repos re_match answers now new_id p db pre tid False)
             = [Reconcile]
         \<and> (\<exists>t. committed (snapshot_repos re_match answers now new_id p db pre tid False)
                    (parent_key tid new_id) = Some t
                \<and> state t = Inr (Some ''failed'') \<and> date_finished t = Some now
                \<and> error_msg t = Some ''failed to snapshot repos''
                \<and> error_detail t
                    = Some (PulpManagerSnapshotError
                              (''snapshots with prefix '' @ normalize_prefix pre
                                 @ '' already exist'')))"
proof -
  have g: "snapshot_try_block re_match answers now (normalize_prefix pre) False
             = (Some (PulpManagerSnapshotError
                  (''snapshots with prefix '' @ normalize_prefix pre @ '' already exist'')),
                [], [Reconcile])"
    using assms(3) assms(4) assms(5)
      snapshot_allowed_raises [of re_match "normalize_prefix pre" rs]
    by (simp add: snapshot_try_block_def)
  show ?thesis
  proof (cases tid)
    case None
    then show ?thesis
      using assms(1) g
      by (simp add: snapshot_repos_def Let_def fail_and_commit_failed state_failed)
  next
    case (Some i)
    with assms(2) obtain t0 where "db i = Some t0" by auto
    with Some show ?thesis
      using assms(1) g
      by (simp add: snapshot_repos_def Let_def fail_and_commit_failed state_failed)
  qed
qed

theorem snapshot_reuse_guard_fails_after_reconcile_witness:
  "snapshot_supported (snapshot_server True) = Some True
   \<and> reconcile_result snapshot_answers_example = Inr (repos (snapshot_server True))
   \<and> list_all (\<lambda>r. \<not> isl (literal_match (''^'' @ normalize_prefix ''snap1'') (repo_name r)))
        (repos (snapshot_server True))
   \<and> (\<exists>r\<in>set (repos (snapshot_server True)).
         literal_match (''^'' @ normalize_prefix ''snap1'') (repo_name r) = Inr True)
   \<and> raised reuse_guard_run
       = Some (PulpManagerSnapshotError ''snapshots with prefix snap1- already exist'')
   \<and> backend_work_done reuse_guard_run = [Reconcile]
   \<and> map_option state (committed reuse_guard_run 9) = Some (Inr (Some ''failed''))
   \<and> map_option date_finished (committed reuse_guard_run 9) = Some (Some 40)"
proof -
  have a: "snapshot_supported (snapshot_server True) = Some True"
    by (simp add: snapshot_server_def)
  have b: "case None :: nat option of None \<Rightarrow> True | Some i \<Rightarrow> Map.empty i \<noteq> (None :: task option)"
    by simp
  have c: "reconcile_result snapshot_answers_example = Inr (repos (snapshot_server True))"
    by (simp add: snapshot_answers_example_def)
  have d: "list_all (\<lambda>r. \<not> isl (literal_match (''^'' @ normalize_prefix ''snap1'') (repo_name r)))
        (repos (snapshot_server True))"
    by (simp add: literal_match_def list_all_iff)
  have e: "\<exists>r\<in>set (repos (snapshot_server True)).
         literal_match (''^'' @ normalize_prefix ''snap1'') (repo_name r) = Inr True"
    by (simp add: snapshot_server_def example_repo_def normalize_snap1 literal_match_snap1)
  show ?thesis
    using a c d e
      snapshot_reuse_guard_fails_after_reconcile
        [where p = "snapshot_server True" and tid = None and db = Map.empty
           and answers = snapshot_answers_example and rs = "repos (snapshot_server True)"
           and re_match = literal_match and pre = "''snap1''" and now = 40 and new_id = 9,
         OF a b c d e]
    by (auto simp: reuse_guard_run_def normalize_snap1 parent_key_def)
qed

section \<open>Failures of the controllers\<close>

text \<open>
  C7. \<^verbatim>\<open>snapshot_repos\<close> on a server that does not support snapshots raises after the
  parent task row was committed as running and outside the \<^verbatim>\<open>try\<close> block whose handler
  marks the task failed: the exception propagates and the committed task is still
  running, with no \<^verbatim>\<open>date_finished\<close>.
\<close>

theorem snapshot_unsupported_leaves_task_running:
  "snapshot_supported (snapshot_server False) = Some False
   \<and> raised unsupported_run
       = Some (PulpManagerValueError ''pulp server p1 not supported for repo snapshots'')
   \<and> map_option state (committed unsupported_run 9) = Some (Inr (Some ''running''))
   \<and> map_option date_finished (committed unsupported_run 9) = Some None"
  by (simp add: unsupported_run_def snapshot_repos_def Let_def snapshot_server_def
      parent_key_def new_snapshot_task_def state_def enum_name_def TaskState_def)

text \<open>
  The handler of \<^verbatim>\<open>remove_repos\<close> marks the task failed in the session but does not
  commit before raising again: the committed row stays running.
\<close>

lemma removal_failure_is_not_committed:
  "raised no_match_removal_run
     = Some (PulpManagerValueError ''No repositories found matching the regex pattern'')
   \<and> map_option state (session_task no_match_removal_run) = Some (Inr (Some ''failed''))
   \<and> map_option state (committed no_match_removal_run 9) = Some (Inr (Some ''running''))
   \<and> map_option date_finished (committed no_match_removal_run 9) = Some None"
proof -
  have m: "\<not> sublist ''tmp-'' ''ext-foo''" "\<not> sublist ''tmp-'' ''ext-tmp''"
    "\<not> sublist ''tmp-'' ''ext-bar''"
    by code_simp+
  have g: "get_repos_for_removal literal_search example_server (Some ''tmp-'') None
             = Inl (PulpManagerValueError ''No repositories found matching the regex pattern'')"
    by (simp add: get_repos_for_removal_def example_server_def example_repo_def and_search_def
        and_not_search_def literal_search_def m)
  show ?thesis
    by (simp add: no_match_removal_run_def remove_repos_def Let_def g fail_without_commit_def
        parent_key_def new_removal_task_def set_state_def value2member_def state_def
        enum_name_def TaskState_def)
qed

end
